theory Spec2Isabelle
  imports Complex_Main "HOL-Library.Word"
begin

unbundle bit_operations_syntax

chapter \<open>The model\<close>

section \<open>Backend handles (src/rlpbr_core/common.cpp)\<close>

text \<open>
  A handle stores one pointer per operation and an opaque pointer to the backend object.
  An operation pointer is modelled by its address, the state pointer by an option whose
  \<open>None\<close> is \<open>nullptr\<close>. A constructor that leaves a member out of its initialiser
  list leaves that member indeterminate: the model takes the indeterminate content of the
  new object as the argument \<open>uninit\<close>.
\<close>

type_synonym fn_ptr = nat
type_synonym state_ptr = "nat option"

record EnvironmentImpl =
  e_destroy_ptr :: fn_ptr
  e_add_light_ptr :: fn_ptr
  e_remove_light_ptr :: fn_ptr
  e_state :: state_ptr

record LoaderImpl =
  l_destroy_ptr :: fn_ptr
  l_load_scene_ptr :: fn_ptr
  l_load_env_maps_ptr :: fn_ptr
  l_state :: state_ptr

record RendererImpl =
  r_destroy_ptr :: fn_ptr
  r_make_baker_ptr :: fn_ptr
  r_make_loader_ptr :: fn_ptr
  r_make_env_ptr :: fn_ptr
  r_set_env_maps_ptr :: fn_ptr
  r_make_batch_ptr :: fn_ptr
  r_render_ptr :: fn_ptr
  r_bake_ptr :: fn_ptr
  r_wait_ptr :: fn_ptr
  r_get_output_ptr :: fn_ptr
  r_get_bake_output_ptr :: fn_ptr
  r_get_aux_ptr :: fn_ptr
  r_state :: state_ptr

text \<open>
  \<open>invoke(destroy_ptr_, state_)\<close> guarded by \<open>if (state_)\<close>: the list of
  (destroy operation, instance) pairs that were destroyed.
\<close>

definition destroy_if_held :: "fn_ptr \<Rightarrow> state_ptr \<Rightarrow> (fn_ptr \<times> nat) list" where
  "destroy_if_held d s = (case s of None \<Rightarrow> [] | Some p \<Rightarrow> [(d, p)])"

text \<open>The move constructors return the new object and the source as it is left.\<close>

definition EnvironmentImpl_move_ctor ::
  "EnvironmentImpl \<Rightarrow> EnvironmentImpl \<times> EnvironmentImpl" where
  "EnvironmentImpl_move_ctor src =
     (\<lparr>e_destroy_ptr = e_destroy_ptr src,
       e_add_light_ptr = e_add_light_ptr src,
       e_remove_light_ptr = e_remove_light_ptr src,
       e_state = e_state src\<rparr>,
      src\<lparr>e_state := None\<rparr>)"

definition EnvironmentImpl_dtor :: "EnvironmentImpl \<Rightarrow> (fn_ptr \<times> nat) list" where
  "EnvironmentImpl_dtor this = destroy_if_held (e_destroy_ptr this) (e_state this)"

text \<open>
  The move assignments return the destination, the source as it is left, and what was
  destroyed on the way.
\<close>

definition EnvironmentImpl_move_assign ::
  "EnvironmentImpl \<Rightarrow> EnvironmentImpl
     \<Rightarrow> EnvironmentImpl \<times> EnvironmentImpl \<times> (fn_ptr \<times> nat) list" where
  "EnvironmentImpl_move_assign this src =
     (this\<lparr>e_destroy_ptr := e_destroy_ptr src,
           e_add_light_ptr := e_add_light_ptr src,
           e_remove_light_ptr := e_remove_light_ptr src,
           e_state := e_state src\<rparr>,
      src\<lparr>e_state := None\<rparr>,
      destroy_if_held (e_destroy_ptr this) (e_state this))"

definition LoaderImpl_move_ctor :: "LoaderImpl \<Rightarrow> LoaderImpl \<times> LoaderImpl" where
  "LoaderImpl_move_ctor src =
     (\<lparr>l_destroy_ptr = l_destroy_ptr src,
       l_load_scene_ptr = l_load_scene_ptr src,
       l_load_env_maps_ptr = l_load_env_maps_ptr src,
       l_state = l_state src\<rparr>,
      src\<lparr>l_state := None\<rparr>)"

definition LoaderImpl_dtor :: "LoaderImpl \<Rightarrow> (fn_ptr \<times> nat) list" where
  "LoaderImpl_dtor this = destroy_if_held (l_destroy_ptr this) (l_state this)"

text \<open>\<open>LoaderImpl::operator=\<close> assigns three of the four members.\<close>

definition LoaderImpl_move_assign ::
  "LoaderImpl \<Rightarrow> LoaderImpl \<Rightarrow> LoaderImpl \<times> LoaderImpl \<times> (fn_ptr \<times> nat) list" where
  "LoaderImpl_move_assign this src =
     (this\<lparr>l_destroy_ptr := l_destroy_ptr src,
           l_load_scene_ptr := l_load_scene_ptr src,
           l_state := l_state src\<rparr>,
      src\<lparr>l_state := None\<rparr>,
      destroy_if_held (l_destroy_ptr this) (l_state this))"

text \<open>
  \<open>RendererImpl(RendererImpl &&)\<close> initialises eleven of the thirteen members:
  \<open>make_baker_ptr_\<close> and \<open>make_batch_ptr_\<close> are not in the initialiser list.
\<close>

definition RendererImpl_move_ctor ::
  "RendererImpl \<Rightarrow> RendererImpl \<Rightarrow> RendererImpl \<times> RendererImpl" where
  "RendererImpl_move_ctor uninit src =
     (uninit\<lparr>r_destroy_ptr := r_destroy_ptr src,
             r_make_loader_ptr := r_make_loader_ptr src,
             r_make_env_ptr := r_make_env_ptr src,
             r_set_env_maps_ptr := r_set_env_maps_ptr src,
             r_render_ptr := r_render_ptr src,
             r_bake_ptr := r_bake_ptr src,
             r_wait_ptr := r_wait_ptr src,
             r_get_output_ptr := r_get_output_ptr src,
             r_get_bake_output_ptr := r_get_bake_output_ptr src,
             r_get_aux_ptr := r_get_aux_ptr src,
             r_state := r_state src\<rparr>,
      src\<lparr>r_state := None\<rparr>)"

definition RendererImpl_dtor :: "RendererImpl \<Rightarrow> (fn_ptr \<times> nat) list" where
  "RendererImpl_dtor this = destroy_if_held (r_destroy_ptr this) (r_state this)"

text \<open>\<open>RendererImpl::operator=\<close> assigns eight of the thirteen members.\<close>

definition RendererImpl_move_assign ::
  "RendererImpl \<Rightarrow> RendererImpl
     \<Rightarrow> RendererImpl \<times> RendererImpl \<times> (fn_ptr \<times> nat) list" where
  "RendererImpl_move_assign this src =
     (this\<lparr>r_destroy_ptr := r_destroy_ptr src,
           r_make_loader_ptr := r_make_loader_ptr src,
           r_make_env_ptr := r_make_env_ptr src,
           r_render_ptr := r_render_ptr src,
           r_wait_ptr := r_wait_ptr src,
           r_get_output_ptr := r_get_output_ptr src,
           r_get_aux_ptr := r_get_aux_ptr src,
           r_state := r_state src\<rparr>,
      src\<lparr>r_state := None\<rparr>,
      destroy_if_held (r_destroy_ptr this) (r_state this))"

section \<open>The render call (src/vulkan/render.cpp, VulkanBackend::render)\<close>

subsection \<open>Configuration\<close>

text \<open>
  \<open>cfg_\<close> and \<open>fb_cfg_\<close>, with the fields the modelled code reads. The counts are
  \<open>uint32_t\<close> in the source and are compared after a cast to \<open>int\<close>; a batch, a tile
  grid and a sample count are far below \<open>2^31\<close>, where the cast changes nothing, so the
  loop indices are natural numbers. \<open>adaptive_samples_per_thread\<close> is a constant of
  \<open>VulkanConfig\<close>; the model takes its value as a field of the configuration.
\<close>

record Config =
  batchSize :: nat
  spp :: nat
  adaptiveSampling :: bool
  adaptive_samples_per_thread :: nat

record FramebufferConfig =
  numTilesWide :: nat
  numTilesTall :: nat

subsection \<open>Adaptive sampling\<close>

record InputTile =
  batchIdx :: nat
  xOffset :: nat
  yOffset :: nat
  sampleOffset :: nat

text \<open>
  The per-tile statistics the device writes and the host reads back. The \<open>float\<close> fields
  are reals here: the host only forms two quotients of them and drops the results.
\<close>

record AdaptiveTile =
  tileMean :: real
  tileVarianceM2 :: real
  numSamples :: nat

text \<open>What one readback gives the host: the tile statistics and the tile illuminances.\<close>

type_synonym readback = "(nat \<Rightarrow> AdaptiveTile) \<times> (nat \<Rightarrow> real)"

text \<open>
  \<open>writeTile\<close> stores a work item at \<open>cur_tile_idx\<close> and increments it. The work items
  written since \<open>cur_tile_idx = 0\<close> are a list, and \<open>cur_tile_idx\<close> is its length.
\<close>

definition writeTile :: "nat \<Rightarrow> nat \<Rightarrow> nat \<Rightarrow> nat \<Rightarrow> InputTile list \<Rightarrow> InputTile list" where
  "writeTile batch_idx tile_x tile_y sample_offset tiles =
     tiles @ [\<lparr>batchIdx = batch_idx, xOffset = tile_x, yOffset = tile_y,
               sampleOffset = sample_offset\<rparr>]"

text \<open>
  \<open>for (sample_idx = 0; sample_idx < spp; sample_idx += adaptive_samples_per_thread)\<close>:
  the values \<open>sample_idx\<close> takes, for a positive step.
\<close>

definition sample_offsets :: "Config \<Rightarrow> nat list" where
  "sample_offsets cfg =
     map (\<lambda>k. k * adaptive_samples_per_thread cfg)
       [0 ..< (spp cfg + adaptive_samples_per_thread cfg - 1) div adaptive_samples_per_thread cfg]"

definition norm_variance_threshold :: real where
  "norm_variance_threshold = 5 / 10000"

definition max_adaptive_iters :: nat where
  "max_adaptive_iters = 10000"

text \<open>
  The lambda \<open>processAdaptiveTile\<close>. It reads the tile, forms \<open>variance\<close> and
  \<open>norm_variance\<close>, and returns: the statement \<open>return;\<close> stands before the test that
  would call \<open>writeTile\<close>, so the work items are returned as they came.
\<close>

definition processAdaptiveTile ::
  "Config \<Rightarrow> FramebufferConfig \<Rightarrow> readback \<Rightarrow> nat \<Rightarrow> nat \<Rightarrow> nat
     \<Rightarrow> InputTile list \<Rightarrow> InputTile list" where
  "processAdaptiveTile cfg fb_cfg rb batch_idx tile_x tile_y tiles =
     (let linear_idx = batch_idx * numTilesTall fb_cfg * numTilesWide fb_cfg
            + tile_y * numTilesWide fb_cfg + tile_x;
          tile = fst rb linear_idx;
          tile_illuminance = snd rb linear_idx;
          variance = tileVarianceM2 tile / real (numSamples tile);
          norm_variance = (if tile_illuminance = 0 then 0
                           else tileMean tile / tile_illuminance)
      in tiles)"

text \<open>
  The statements after \<open>return;\<close>, which no call reaches: what the lambda would do
  without that statement. It is here to be compared with \<open>processAdaptiveTile\<close>.
\<close>

definition processAdaptiveTile_unreached ::
  "Config \<Rightarrow> FramebufferConfig \<Rightarrow> readback \<Rightarrow> nat \<Rightarrow> nat \<Rightarrow> nat
     \<Rightarrow> InputTile list \<Rightarrow> InputTile list" where
  "processAdaptiveTile_unreached cfg fb_cfg rb batch_idx tile_x tile_y tiles =
     (let linear_idx = batch_idx * numTilesTall fb_cfg * numTilesWide fb_cfg
            + tile_y * numTilesWide fb_cfg + tile_x;
          tile = fst rb linear_idx;
          tile_illuminance = snd rb linear_idx;
          norm_variance = (if tile_illuminance = 0 then 0
                           else tileMean tile / tile_illuminance)
      in if (norm_variance = 0 \<and> numSamples tile < spp cfg * 10)
            \<or> norm_variance > norm_variance_threshold
         then foldl (\<lambda>ts sample_idx. writeTile batch_idx tile_x tile_y sample_idx ts)
                tiles (sample_offsets cfg)
         else tiles)"

text \<open>
  The three nested loops over \<open>batch_idx\<close>, \<open>tile_y\<close> and \<open>tile_x\<close>, in the order they
  visit the tiles.
\<close>

definition tile_order :: "Config \<Rightarrow> FramebufferConfig \<Rightarrow> (nat \<times> nat \<times> nat) list" where
  "tile_order cfg fb_cfg =
     concat (map (\<lambda>batch_idx.
       concat (map (\<lambda>tile_y.
         map (\<lambda>tile_x. (batch_idx, tile_x, tile_y)) [0 ..< numTilesWide fb_cfg])
       [0 ..< numTilesTall fb_cfg]))
     [0 ..< batchSize cfg])"

text \<open>
  One pass of the convergence loop over every tile, from \<open>cur_tile_idx = 0\<close>, with the
  per-tile routine \<open>proc\<close>; the source's routine is \<open>processAdaptiveTile\<close>.
\<close>

type_synonym tile_proc =
  "Config \<Rightarrow> FramebufferConfig \<Rightarrow> readback \<Rightarrow> nat \<Rightarrow> nat \<Rightarrow> nat
     \<Rightarrow> InputTile list \<Rightarrow> InputTile list"

definition processTiles ::
  "tile_proc \<Rightarrow> Config \<Rightarrow> FramebufferConfig \<Rightarrow> readback \<Rightarrow> InputTile list" where
  "processTiles proc cfg fb_cfg rb =
     foldl (\<lambda>tiles (batch_idx, tile_x, tile_y).
              proc cfg fb_cfg rb batch_idx tile_x tile_y tiles)
       [] (tile_order cfg fb_cfg)"

text \<open>The work items of the first dispatch: every tile, every chunk of samples.\<close>

definition initialTiles :: "Config \<Rightarrow> FramebufferConfig \<Rightarrow> InputTile list" where
  "initialTiles cfg fb_cfg =
     foldl (\<lambda>tiles (batch_idx, tile_x, tile_y).
              foldl (\<lambda>ts sample_idx. writeTile batch_idx tile_x tile_y sample_idx ts)
                tiles (sample_offsets cfg))
       [] (tile_order cfg fb_cfg)"

text \<open>
  What the convergence loop changes: the frame counter, and, for the record, how often its
  body was entered, the work-item count of each dispatch it issued, and whether it left
  through \<open>break\<close> (no work item was written).
\<close>

record AdaptiveLoopState =
  frame_counter :: "32 word"
  iterations :: nat
  dispatches :: "nat list"
  left_by_break :: bool

text \<open>
  \<open>for (adaptive_iter = 0; adaptive_iter < max_adaptive_iters; adaptive_iter++)\<close>.
  \<open>gpu k\<close> is what the host reads back in iteration \<open>k\<close>: the result of the dispatch
  before it, which the host waited for on the fence.
\<close>

function adaptiveLoopWith ::
  "tile_proc \<Rightarrow> Config \<Rightarrow> FramebufferConfig \<Rightarrow> (nat \<Rightarrow> readback) \<Rightarrow> nat
     \<Rightarrow> AdaptiveLoopState \<Rightarrow> AdaptiveLoopState" where
  "adaptiveLoopWith proc cfg fb_cfg gpu adaptive_iter st =
     (if adaptive_iter < max_adaptive_iters then
        (if length (processTiles proc cfg fb_cfg (gpu adaptive_iter)) = 0 then
           st\<lparr>frame_counter := frame_counter st + of_nat (batchSize cfg),
              iterations := Suc (iterations st),
              left_by_break := True\<rparr>
         else
           adaptiveLoopWith proc cfg fb_cfg gpu (Suc adaptive_iter)
             (st\<lparr>frame_counter := frame_counter st + of_nat (batchSize cfg),
                 iterations := Suc (iterations st),
                 dispatches := dispatches st
                   @ [length (processTiles proc cfg fb_cfg (gpu adaptive_iter))]\<rparr>))
      else st)"
  by pat_completeness auto
termination
  by (relation "measure (\<lambda>(proc, cfg, fb_cfg, gpu, adaptive_iter, st).
        max_adaptive_iters - adaptive_iter)") auto

declare adaptiveLoopWith.simps [simp del]

definition adaptiveLoop ::
  "Config \<Rightarrow> FramebufferConfig \<Rightarrow> (nat \<Rightarrow> readback) \<Rightarrow> 32 word \<Rightarrow> AdaptiveLoopState" where
  "adaptiveLoop cfg fb_cfg gpu fc =
     adaptiveLoopWith processAdaptiveTile cfg fb_cfg gpu 0
       \<lparr>frame_counter = fc, iterations = 0, dispatches = [], left_by_break = False\<rparr>"

subsection \<open>Environments and their acceleration structures\<close>

text \<open>
  An environment, with what the TLAS loop of \<open>render\<close> reads and changes: its dirty flag,
  and its TLAS, of which the model keeps how often it was built.
\<close>

record Environment =
  dirty :: bool
  tlasBuilds :: nat

text \<open>
  Modelled from the spec: \<open>Environment::isDirty\<close>, \<open>Environment::clearDirty\<close> and
  \<open>TLAS::build\<close> are called by \<open>render\<close> and defined outside render.cpp. By the
  specification the first reads the environment's dirty flag, the second clears it, and
  the third builds the environment's TLAS; the model counts the builds.
\<close>

definition isDirty :: "Environment \<Rightarrow> bool" where
  "isDirty env = dirty env"

definition clearDirty :: "Environment \<Rightarrow> Environment" where
  "clearDirty env = env\<lparr>dirty := False\<rparr>"

definition tlas_build :: "Environment \<Rightarrow> Environment" where
  "tlas_build env = env\<lparr>tlasBuilds := Suc (tlasBuilds env)\<rparr>"

text \<open>
  \<open>for (batch_idx = 0; batch_idx < batchSize; batch_idx++)\<close> under the comment
  \<open>// TLAS build\<close>, which \<open>render\<close> and \<open>bakeProbe\<close> have word for word.
  \<open>built\<close> lists the batch indices whose TLAS the loop has built.
\<close>

function buildTLASLoop ::
  "nat \<Rightarrow> nat \<Rightarrow> Environment list \<Rightarrow> nat list \<Rightarrow> Environment list \<times> nat list" where
  "buildTLASLoop batch_idx n envs built =
     (if batch_idx < n then
        (if isDirty (envs ! batch_idx) then
           buildTLASLoop (Suc batch_idx) n
             (envs[batch_idx := clearDirty (tlas_build (envs ! batch_idx))])
             (built @ [batch_idx])
         else buildTLASLoop (Suc batch_idx) n envs built)
      else (envs, built))"
  by pat_completeness auto
termination
  by (relation "measure (\<lambda>(batch_idx, n, envs, built). n - batch_idx)") auto

declare buildTLASLoop.simps [simp del]

subsection \<open>The two descriptor sets of a batch\<close>

text \<open>
  A descriptor set maps a binding number to the buffer bound there; a buffer is its handle.
  \<open>desc_updates.buffer(set, &info, binding, type)\<close> binds the buffer of \<open>info\<close>.
\<close>

type_synonym descriptor_set = "nat \<rightharpoonup> nat"

definition desc_updates_buffer ::
  "descriptor_set list \<Rightarrow> nat \<Rightarrow> nat \<Rightarrow> nat \<Rightarrow> descriptor_set list" where
  "desc_updates_buffer sets i buffer binding = sets[i := (sets ! i)(binding \<mapsto> buffer)]"

text \<open>
  Of \<open>makePerBatchState\<close>, the four writes of the reservoir buffers, in the source's
  order. The function's other writes go to the bindings 0 to 3, 6 to 10 and 13 to 18 and
  to the exposure and tonemap sets. By the source's names the binding 11 holds the current
  reservoir and the binding 12 the previous one.
\<close>

definition current_reservoir_binding :: nat where
  "current_reservoir_binding = 11"

definition previous_reservoir_binding :: nat where
  "previous_reservoir_binding = 12"

definition makePerBatchState_reservoirs ::
  "nat list \<Rightarrow> descriptor_set list \<Rightarrow> descriptor_set list" where
  "makePerBatchState_reservoirs fb_reservoirs rt_sets =
     (let cur_reservoir_info = fb_reservoirs ! 0;
          sets1 = desc_updates_buffer rt_sets 0 cur_reservoir_info 11;
          sets2 = desc_updates_buffer sets1 1 cur_reservoir_info 12;
          prev_reservoir_info = fb_reservoirs ! 1;
          sets3 = desc_updates_buffer sets2 0 prev_reservoir_info 12;
          sets4 = desc_updates_buffer sets3 1 prev_reservoir_info 11
      in sets4)"

record VulkanBatch =
  reservoirs :: "nat list"
  rtSets :: "descriptor_set list"
  curBuffer :: "32 word"

text \<open>
  \<open>makeRenderBatch\<close>: \<open>makeFramebuffer\<close> allocates the two reservoir buffers, whose
  handles are the arguments, \<open>makePerBatchState\<close> makes and fills the two sets, and the
  batch starts with \<open>curBuffer = 0\<close>.
\<close>

definition makeRenderBatch :: "nat \<Rightarrow> nat \<Rightarrow> VulkanBatch" where
  "makeRenderBatch reservoir0 reservoir1 =
     \<lparr>reservoirs = [reservoir0, reservoir1],
      rtSets = makePerBatchState_reservoirs [reservoir0, reservoir1] [Map.empty, Map.empty],
      curBuffer = 0\<rparr>"

subsection \<open>The call\<close>

text \<open>
  The state a call works on: the environments of the batch, the batch, and the backend's
  \<open>frame_counter_\<close> and \<open>cur_queue_\<close> (here \<open>b_frame_counter\<close> and
  \<open>b_cur_queue\<close>). What one call did is a \<open>RenderCall\<close>: the descriptor set
  \<open>startRenderSetup\<close> bound at index 0 (the same set each time the call runs it), the
  batch indices whose TLAS was built, the entries of the convergence loop's body and the
  work-item counts of the tile dispatches.
\<close>

record RenderState =
  envs :: "Environment list"
  batch :: VulkanBatch
  b_frame_counter :: "32 word"
  b_cur_queue :: "32 word"

record RenderCall =
  bound_set :: descriptor_set
  tlas_built :: "nat list"
  adaptive_iterations :: nat
  tile_dispatches :: "nat list"

text \<open>
  \<open>VulkanBackend::render\<close>. The steps that touch none of the modelled state are left
  out: packing the environments into the parameter buffer, the barriers, the denoise and
  tonemap passes and the submission.
\<close>

definition render ::
  "Config \<Rightarrow> FramebufferConfig \<Rightarrow> (nat \<Rightarrow> readback) \<Rightarrow> RenderState
     \<Rightarrow> RenderState \<times> RenderCall" where
  "render cfg fb_cfg gpu s =
     (let bound = rtSets (batch s) ! unat (curBuffer (batch s));
          tlas = buildTLASLoop 0 (batchSize cfg) (envs s) [];
          lp = adaptiveLoop cfg fb_cfg gpu (b_frame_counter s)
      in (s\<lparr>envs := fst tlas,
            batch := (batch s)\<lparr>curBuffer := (curBuffer (batch s) + 1) AND 1\<rparr>,
            b_frame_counter :=
              (if adaptiveSampling cfg then frame_counter lp
               else b_frame_counter s + of_nat (batchSize cfg)),
            b_cur_queue := (b_cur_queue s + 1) AND 1\<rparr>,
          \<lparr>bound_set = bound,
           tlas_built = snd tlas,
           adaptive_iterations = (if adaptiveSampling cfg then iterations lp else 0),
           tile_dispatches =
             (if adaptiveSampling cfg
              then length (initialTiles cfg fb_cfg) # dispatches lp else [])\<rparr>))"

text \<open>
  \<open>n\<close> successive calls of \<open>render\<close> on one batch, the \<open>k\<close>-th of which reads back
  \<open>gpus k\<close>; nothing else touches the state between the calls.
\<close>

fun renderCalls ::
  "Config \<Rightarrow> FramebufferConfig \<Rightarrow> (nat \<Rightarrow> nat \<Rightarrow> readback) \<Rightarrow> nat \<Rightarrow> RenderState
     \<Rightarrow> RenderState" where
  "renderCalls cfg fb_cfg gpus 0 s = s"
| "renderCalls cfg fb_cfg gpus (Suc n) s =
     fst (render cfg fb_cfg (gpus n) (renderCalls cfg fb_cfg gpus n s))"

section \<open>The layout of the parameter buffer (src/vulkan/render.cpp, getParamBufferConfig)\<close>

text \<open>
  The sizes of the three structures and the two capacities of \<open>VulkanConfig\<close> are
  compile-time constants declared outside render.cpp; the model takes them as fields of
  \<open>ParamSizes\<close>. \<open>sizeof(uint32_t)\<close> is 4. The device's minimum storage-buffer offset
  alignment is held by the allocator.

  \<open>VkDeviceSize\<close> is an unsigned 64-bit integer. The model computes in natural numbers:
  a structure size times a 32-bit count, summed four times with an alignment between,
  does not reach \<open>2^64\<close> (lemma \<open>getParamBufferConfig_fits_64_bits\<close>).
\<close>

record ParamSizes =
  sizeof_InstanceTransform :: nat
  sizeof_PackedLight :: nat
  sizeof_PackedEnv :: nat
  max_instances :: nat
  max_lights :: nat

record MemoryAllocator =
  storageBufferOffsetAlignment :: nat

text \<open>
  Modelled from the spec: \<open>MemoryAllocator::alignStorageBufferOffset\<close> is defined outside
  render.cpp. By the specification it rounds an offset up to the device's minimum
  storage-buffer alignment: the least multiple of the alignment that is not below the
  offset.
\<close>

definition alignStorageBufferOffset :: "MemoryAllocator \<Rightarrow> nat \<Rightarrow> nat" where
  "alignStorageBufferOffset alloc offset =
     ((offset + storageBufferOffsetAlignment alloc - 1) div storageBufferOffsetAlignment alloc)
       * storageBufferOffsetAlignment alloc"

record ParamBufferConfig =
  totalTransformBytes :: nat
  materialIndicesOffset :: nat
  totalMaterialIndexBytes :: nat
  lightsOffset :: nat
  totalLightParamBytes :: nat
  envOffset :: nat
  totalEnvParamBytes :: nat
  totalParamBytes :: nat

definition getParamBufferConfig :: "ParamSizes \<Rightarrow> nat \<Rightarrow> MemoryAllocator \<Rightarrow> ParamBufferConfig" where
  "getParamBufferConfig sz batch_size alloc =
     (let totalTransformBytes' = sizeof_InstanceTransform sz * max_instances sz;
          cur_offset1 = totalTransformBytes';
          materialIndicesOffset' = alignStorageBufferOffset alloc cur_offset1;
          totalMaterialIndexBytes' = 4 * max_instances sz;
          cur_offset2 = materialIndicesOffset' + totalMaterialIndexBytes';
          lightsOffset' = alignStorageBufferOffset alloc cur_offset2;
          totalLightParamBytes' = sizeof_PackedLight sz * max_lights sz;
          cur_offset3 = lightsOffset' + totalLightParamBytes';
          envOffset' = alignStorageBufferOffset alloc cur_offset3;
          totalEnvParamBytes' = sizeof_PackedEnv sz * batch_size;
          cur_offset4 = envOffset' + totalEnvParamBytes'
      in \<lparr>totalTransformBytes = totalTransformBytes',
          materialIndicesOffset = materialIndicesOffset',
          totalMaterialIndexBytes = totalMaterialIndexBytes',
          lightsOffset = lightsOffset',
          totalLightParamBytes = totalLightParamBytes',
          envOffset = envOffset',
          totalEnvParamBytes = totalEnvParamBytes',
          totalParamBytes = alignStorageBufferOffset alloc cur_offset4\<rparr>)"

section \<open>Choosing the sampling scheme (src/vulkan/render.cpp, makeRenderState)\<close>

text \<open>
  The fields of \<open>RenderConfig\<close> that this part of \<open>makeRenderState\<close> reads; the two
  flags are the tests \<open>cfg.flags & RenderFlags::AdaptiveSample\<close> and
  \<open>cfg.flags & RenderFlags::ForceUniform\<close>, and \<open>rc_spp\<close> is \<open>cfg.spp\<close>.
\<close>

record RenderConfig =
  imgWidth :: "32 word"
  imgHeight :: "32 word"
  rc_spp :: "32 word"
  flag_AdaptiveSample :: bool
  flag_ForceUniform :: bool

text \<open>The number of binary digits of a natural number.\<close>

fun bit_length :: "nat \<Rightarrow> nat" where
  "bit_length n = (if n = 0 then 0 else Suc (bit_length (n div 2)))"

declare bit_length.simps [simp del]

text \<open>
  \<open>__builtin_clz\<close> counts the leading zero bits of a 32-bit value and is undefined for 0;
  \<open>clz0\<close> stands for what it returns there.
\<close>

definition builtin_clz :: "int \<Rightarrow> 32 word \<Rightarrow> int" where
  "builtin_clz clz0 v = (if v = 0 then clz0 else 32 - int (bit_length (unat v)))"

definition log2Int :: "int \<Rightarrow> 32 word \<Rightarrow> int" where
  "log2Int clz0 v = 32 - builtin_clz clz0 v - 1"

text \<open>
  \<open>num_index_digits_base4\<close>, in the source's unsigned 32-bit arithmetic: the \<open>int\<close>
  sum \<open>log2Int(\<dots>) + 1\<close> is converted to \<open>uint32_t\<close> when the unsigned quotient is added.
\<close>

definition num_index_digits_base4 :: "int \<Rightarrow> RenderConfig \<Rightarrow> 32 word" where
  "num_index_digits_base4 clz0 cfg =
     (let log2_spp = (word_of_int (log2Int clz0 (rc_spp cfg)) :: 32 word)
      in word_of_int (log2Int clz0 (max (imgWidth cfg) (imgHeight cfg) - 1) + 1)
           + (log2_spp + 1) div 2)"

datatype sampling_define = ZSOBOL_SAMPLING | UNIFORM_SAMPLING

record SamplerSetup =
  cerr :: "string list"
  sampling :: sampling_define
  ZSOBOL_NUM_BASE4 :: "32 word"
  ZSOBOL_INDEX_SHIFT :: "32 word"
  ZSOBOL_ODD_POWER :: bool

definition zsobol_warning :: string where
  "zsobol_warning =
     ''Warning: Not enough bits for ZSobol morton code.'' @ [CHR 0x0A]
       @ ''Falling back to uniform sampling.''"

text \<open>
  What \<open>cerr << n\<close> writes for an unsigned number: its decimal digits.
\<close>

fun decimal :: "nat \<Rightarrow> string" where
  "decimal n =
     (if n < 10 then [''0123456789'' ! n]
      else decimal (n div 10) @ [''0123456789'' ! (n mod 10)])"

declare decimal.simps [simp del]

text \<open>
  \<open>makeRenderState\<close> from the copy of \<open>cfg.spp\<close> to the \<open>ForceUniform\<close> test. The
  result \<open>Inl\<close> is \<open>fatalExit()\<close>, with what was written to \<open>cerr\<close> before it; the
  result \<open>Inr\<close> is what the function goes on with. \<open>adaptive_spt\<close> is the constant
  \<open>VulkanConfig::adaptive_samples_per_thread\<close>, whose definition is in a header outside
  \<open>src/\<close>; it is taken as the unsigned 32-bit value that \<open>spp\<close> is compared with.
\<close>

definition makeRenderState_sampling ::
  "int \<Rightarrow> 32 word \<Rightarrow> RenderConfig \<Rightarrow> string list + SamplerSetup" where
  "makeRenderState_sampling clz0 adaptive_spt cfg =
     (if flag_AdaptiveSample cfg \<and> rc_spp cfg < adaptive_spt then
        Inl [''SPP per launch too low for adaptive sampling - ''
               @ decimal (unat adaptive_spt)]
      else
        (let log2_spp = (word_of_int (log2Int clz0 (rc_spp cfg)) :: 32 word);
             is_odd_power2 = (log2_spp AND 1 \<noteq> 0);
             index_shift = (if is_odd_power2 then log2_spp + 1 else log2_spp);
             num_index_digits = num_index_digits_base4 clz0 cfg;
             fits = (num_index_digits * 2 \<le> 32);
             sampling_define1 = (if fits then ZSOBOL_SAMPLING else UNIFORM_SAMPLING);
             sampling_define2 =
               (if flag_ForceUniform cfg then UNIFORM_SAMPLING else sampling_define1)
         in Inr \<lparr>cerr = (if fits then [] else [zsobol_warning]),
                 sampling = sampling_define2,
                 ZSOBOL_NUM_BASE4 = num_index_digits,
                 ZSOBOL_INDEX_SHIFT = index_shift,
                 ZSOBOL_ODD_POWER = is_odd_power2\<rparr>))"

section \<open>The scene-conversion tool (src/bin/preprocess.cpp)\<close>






section \<open>Baking and storing light probes (src/vulkan/render.cpp, bake and its helpers)\<close>

subsection \<open>Bytes and files\<close>

type_synonym byte = "8 word"

text \<open>
  The source writes and reads the bytes of an object as they lie in memory; on the
  little-endian hosts the renderer runs on, the least significant byte comes first.
  \<open>le_bytes k n\<close> are the \<open>k\<close> low-order bytes of \<open>n\<close>, \<open>le_value\<close> reads them back.
\<close>

fun le_bytes :: "nat \<Rightarrow> nat \<Rightarrow> byte list" where
  "le_bytes 0 n = []"
| "le_bytes (Suc k) n = of_nat (n mod 256) # le_bytes k (n div 256)"

fun le_value :: "byte list \<Rightarrow> nat" where
  "le_value [] = 0"
| "le_value (b # bs) = unat b + 256 * le_value bs"

text \<open>\<open>VkDeviceSize\<close> is \<open>uint64_t\<close>; a component of \<open>glm::ivec3\<close> is a 32-bit \<open>int\<close>.\<close>

definition bytes_of_u64 :: "64 word \<Rightarrow> byte list" where
  "bytes_of_u64 w = le_bytes 8 (unat w)"

definition u64_of_bytes :: "byte list \<Rightarrow> 64 word" where
  "u64_of_bytes bs = of_nat (le_value bs)"

definition bytes_of_i32 :: "32 word \<Rightarrow> byte list" where
  "bytes_of_i32 w = le_bytes 4 (unat w)"

definition i32_of_bytes :: "byte list \<Rightarrow> 32 word" where
  "i32_of_bytes bs = of_nat (le_value bs)"

type_synonym ivec3 = "32 word \<times> 32 word \<times> 32 word"

definition bytes_of_ivec3 :: "ivec3 \<Rightarrow> byte list" where
  "bytes_of_ivec3 v =
     (case v of (x, y, z) \<Rightarrow> bytes_of_i32 x @ bytes_of_i32 y @ bytes_of_i32 z)"

definition ivec3_of_bytes :: "byte list \<Rightarrow> ivec3" where
  "ivec3_of_bytes bs =
     (i32_of_bytes (take 4 bs), i32_of_bytes (take 4 (drop 4 bs)),
      i32_of_bytes (take 4 (drop 8 bs)))"

text \<open>
  An input file stream that was opened on an existing file: the bytes not yet read and
  \<open>eofbit\<close>. In this use \<open>failbit\<close> is set exactly when \<open>eofbit\<close> is, so it has no
  field. \<open>read(s, n)\<close> on a stream whose \<open>eofbit\<close> is set extracts nothing; on a good stream
  it extracts \<open>n\<close> bytes, or all that are left when there are fewer, and then sets
  \<open>eofbit\<close> (and \<open>failbit\<close>). Reading exactly up to the end of the file does not set
  \<open>eofbit\<close>. The function returns the extracted bytes.
\<close>

record ifstream =
  unread :: "byte list"
  eofbit :: bool

definition ifstream_read :: "nat \<Rightarrow> ifstream \<Rightarrow> byte list \<times> ifstream" where
  "ifstream_read n file =
     (if eofbit file then ([], file)
      else if n \<le> length (unread file)
        then (take n (unread file), file\<lparr>unread := drop n (unread file)\<rparr>)
      else (unread file, file\<lparr>unread := [], eofbit := True\<rparr>))"

text \<open>
  \<open>read\<close> stores the extracted bytes at the start of the destination and leaves the rest
  of it as it was.
\<close>

definition stored_over :: "byte list \<Rightarrow> byte list \<Rightarrow> byte list" where
  "stored_over extracted destination = extracted @ drop (length extracted) destination"

text \<open>
  Memory that the source reads before it has written it: the local variables \<open>size\<close> and
  \<open>dim\<close>, and a staging buffer as \<open>makeStagingBuffer\<close> returns it. Its content is
  indeterminate; the model takes it from these three functions of the byte offset.
\<close>

record Indeterminate =
  size_junk :: "nat \<Rightarrow> byte"
  dim_junk :: "nat \<Rightarrow> byte"
  staging_junk :: "nat \<Rightarrow> byte"

definition makeStagingBuffer :: "Indeterminate \<Rightarrow> nat \<Rightarrow> byte list" where
  "makeStagingBuffer junk n = map (staging_junk junk) [0 ..< n]"

subsection \<open>Probes\<close>

definition PROBE_WIDTH :: nat where
  "PROBE_WIDTH = 32"

definition PROBE_HEIGHT :: nat where
  "PROBE_HEIGHT = 32"

definition PROBE_DIM :: ivec3 where
  "PROBE_DIM = (3, 3, 3)"

text \<open>
  A probe image has the format \<open>VK_FORMAT_R32G32B32A32_SFLOAT\<close>, sixteen bytes a texel;
  the copies between an image and a buffer move \<open>PROBE_WIDTH * PROBE_HEIGHT\<close> texels,
  tightly packed, from or to the start of the buffer.
\<close>

definition probe_image_bytes :: nat where
  "probe_image_bytes = 16 * PROBE_WIDTH * PROBE_HEIGHT"

text \<open>
  A probe: \<open>pr.size\<close>, which is the size the device requires for the image's memory, and
  the texels of its image.
\<close>

record Probe =
  pr_size :: "64 word"
  image :: "byte list"

text \<open>
  \<open>serializeProbeToFile\<close>, as the bytes it writes to the file: a staging buffer of
  \<open>pr.size\<close> bytes receives the image, then \<open>pr.size\<close> is written and after it
  \<open>pr.size\<close> bytes from the staging buffer.
\<close>

definition serializeProbeToFile :: "Indeterminate \<Rightarrow> Probe list \<Rightarrow> nat \<Rightarrow> byte list" where
  "serializeProbeToFile junk probes idx =
     (let pr = probes ! idx;
          staging = stored_over (take probe_image_bytes (image pr))
                      (makeStagingBuffer junk (unat (pr_size pr)))
      in bytes_of_u64 (pr_size pr) @ take (unat (pr_size pr)) staging)"

text \<open>
  \<open>deserializeProbeFromFile\<close>: it reads \<open>size\<close>, then \<open>size\<close> bytes into a staging buffer
  of that size, and copies the image out of the staging buffer into a new texture, whose
  memory requirement \<open>req_size\<close> becomes \<open>pr.size\<close>. It does not test the stream.
\<close>

definition deserializeProbeFromFile ::
  "Indeterminate \<Rightarrow> 64 word \<Rightarrow> ifstream \<Rightarrow> Probe \<times> ifstream" where
  "deserializeProbeFromFile junk req_size file =
     (let r1 = ifstream_read 8 file;
          size = u64_of_bytes (stored_over (fst r1) (map (size_junk junk) [0 ..< 8]));
          r2 = ifstream_read (unat size) (snd r1);
          staging = stored_over (fst r2) (makeStagingBuffer junk (unat size))
      in (\<lparr>pr_size = req_size, image = take probe_image_bytes staging\<rparr>, snd r2))"

text \<open>
  \<open>while (!file.eof()) probes_.push_back(deserializeProbeFromFile(file));\<close>
\<close>

function readProbes ::
  "Indeterminate \<Rightarrow> 64 word \<Rightarrow> ifstream \<Rightarrow> Probe list \<Rightarrow> Probe list \<times> ifstream" where
  "readProbes junk req_size file probes =
     (if \<not> eofbit file then
        readProbes junk req_size (snd (deserializeProbeFromFile junk req_size file))
          (probes @ [fst (deserializeProbeFromFile junk req_size file)])
      else (probes, file))"
  by pat_completeness auto
termination
proof (relation "measure (\<lambda>(junk, req_size, file, probes).
    if eofbit file then 0 else Suc (length (unread file)))")
  show "wf (measure (\<lambda>(junk, req_size, file, probes).
    if eofbit file then 0 else Suc (length (unread file))))"
    by simp
next
  fix junk :: Indeterminate and req_size :: "64 word" and strm :: ifstream
    and probes :: "Probe list"
  assume "\<not> eofbit strm"
  then show "((junk, req_size, snd (deserializeProbeFromFile junk req_size strm),
      probes @ [fst (deserializeProbeFromFile junk req_size strm)]),
     (junk, req_size, strm, probes))
    \<in> measure (\<lambda>(junk, req_size, file, probes).
         if eofbit file then 0 else Suc (length (unread file)))"
    by (auto simp add: deserializeProbeFromFile_def ifstream_read_def Let_def)
qed

declare readProbes.simps [simp del]

text \<open>
  The block of \<open>bake\<close> under \<open>if (std::filesystem::exists(PROBES_BIN_PATH))\<close>, for a file
  with the given content. It returns \<open>dim\<close> (here \<open>grid_dim\<close>), \<open>probe_count\<close> and
  \<open>probes_\<close>; \<open>None\<close> is
  the failure of the \<open>assert\<close> on \<open>dim\<close>, which aborts in a build with assertions.
\<close>

definition loadProbes ::
  "bool \<Rightarrow> Indeterminate \<Rightarrow> 64 word \<Rightarrow> byte list \<Rightarrow> Probe list
     \<Rightarrow> (ivec3 \<times> 32 word \<times> Probe list) option" where
  "loadProbes assertions junk req_size content probes =
     (let r = ifstream_read 12 \<lparr>unread = content, eofbit = False\<rparr>;
          grid_dim = ivec3_of_bytes (stored_over (fst r) (map (dim_junk junk) [0 ..< 12]));
          probe_count = (case grid_dim of (x, y, z) \<Rightarrow> x * y * z)
      in if assertions \<and> grid_dim \<noteq> PROBE_DIM then None
         else Some (grid_dim, probe_count, fst (readProbes junk req_size (snd r) probes)))"

text \<open>
  The grid position of the probe with index \<open>idx\<close>; the source turns it into a point of
  the scene's bounding box.
\<close>

definition grid_position :: "nat \<Rightarrow> nat \<times> nat \<times> nat" where
  "grid_position idx =
     (case PROBE_DIM of (dx, dy, dz) \<Rightarrow>
        (idx mod unat dx, (idx div unat dx) mod unat dy,
         (idx div (unat dx * unat dy)) mod unat dz))"

text \<open>
  \<open>bakeProbe\<close> renders at a position and copies the HDR output into a new probe image;
  what the device rendered there is \<open>gpu position\<close>.
\<close>

definition bakeProbe :: "64 word \<Rightarrow> (nat \<times> nat \<times> nat \<Rightarrow> byte list) \<Rightarrow> nat \<times> nat \<times> nat \<Rightarrow> Probe" where
  "bakeProbe req_size gpu position =
     \<lparr>pr_size = req_size, image = take probe_image_bytes (gpu position)\<rparr>"

text \<open>
  \<open>for (int i = 0; i < positions.size(); ++i)\<close>: bake the probe at \<open>positions[i]\<close>, push
  it, and append what \<open>serializeProbeToFile(file, i)\<close> writes. The first argument of the
  model is the list of the positions from \<open>positions[i]\<close> on.
\<close>

fun bakeLoop ::
  "Indeterminate \<Rightarrow> 64 word \<Rightarrow> (nat \<times> nat \<times> nat \<Rightarrow> byte list) \<Rightarrow> (nat \<times> nat \<times> nat) list
     \<Rightarrow> nat \<Rightarrow> Probe list \<times> byte list \<Rightarrow> Probe list \<times> byte list" where
  "bakeLoop junk req_size gpu [] i (probes, file) = (probes, file)"
| "bakeLoop junk req_size gpu (position # rest) i (probes, file) =
     bakeLoop junk req_size gpu rest (Suc i)
       (probes @ [bakeProbe req_size gpu position],
        file @ serializeProbeToFile junk (probes @ [bakeProbe req_size gpu position]) i)"

text \<open>
  \<open>bake\<close>. The state it works on is \<open>probes_\<close> and the file \<open>probes.bin\<close>, which is
  \<open>None\<close> when it does not exist. The result has the new \<open>probes_\<close>, the new content of
  the file, and the grid positions at which \<open>bakeProbe\<close> rendered, in order. The part
  after the \<open>if\<close> block is not under an \<open>else\<close>: it runs in either case. The file is
  opened for appending, and the header is written before the loop. \<open>left\<close> and \<open>start\<close>
  are \<open>uint32_t\<close>; the index \<open>start + i\<close> is a natural number here.

  The result \<open>None\<close> is a call that does not come to its end. That is the failed \<open>assert\<close>
  of the block that loads, and it is \<open>left\<close> of 2^31 or more: the loop
  \<open>for (int i = 0; i < left; ++i)\<close>, which fills \<open>positions\<close> before the file is opened
  for writing and before any probe is baked, compares the \<open>int\<close> counter as an unsigned
  number, so it cannot reach such a \<open>left\<close>; the counter overflows, unless the memory for
  \<open>positions\<close> has run out before.
\<close>

record BakeResult =
  probes_after :: "Probe list"
  probes_bin :: "byte list"
  rendered :: "(nat \<times> nat \<times> nat) list"

definition bake ::
  "bool \<Rightarrow> Indeterminate \<Rightarrow> 64 word \<Rightarrow> (nat \<times> nat \<times> nat \<Rightarrow> byte list) \<Rightarrow> Probe list
     \<Rightarrow> byte list option \<Rightarrow> BakeResult option" where
  "bake assertions junk req_size gpu probes file =
     (case (case file of
              None \<Rightarrow> Some (PROBE_DIM, (case PROBE_DIM of (x, y, z) \<Rightarrow> x * y * z), probes)
            | Some content \<Rightarrow> loadProbes assertions junk req_size content probes) of
        None \<Rightarrow> None
      | Some (grid_dim, probe_count, probes1) \<Rightarrow>
          (let left = probe_count - of_nat (length probes1);
               start = length probes1
           in if 2 ^ 31 \<le> unat left then None
              else
                (let positions = map (\<lambda>i. grid_position (start + i)) [0 ..< unat left];
                     opened = (case file of None \<Rightarrow> [] | Some content \<Rightarrow> content)
                                @ bytes_of_ivec3 PROBE_DIM;
                     done = bakeLoop junk req_size gpu positions 0 (probes1, opened)
                 in Some \<lparr>probes_after = fst done, probes_bin = snd done,
                          rendered = positions\<rparr>)))"

chapter \<open>The properties\<close>

section \<open>Moving backend handles\<close>

text \<open>
  What holds of every handle: the destination takes the source's state pointer, the source
  is left with \<open>nullptr\<close>, and its destructor then destroys nothing.
\<close>

lemma EnvironmentImpl_move_ctor_complete:
  "fst (EnvironmentImpl_move_ctor src) = src"
  by (simp add: EnvironmentImpl_move_ctor_def)

lemma EnvironmentImpl_move_assign_complete:
  "fst (EnvironmentImpl_move_assign this src) = src"
  by (simp add: EnvironmentImpl_move_assign_def)

lemma LoaderImpl_move_ctor_complete:
  "fst (LoaderImpl_move_ctor src) = src"
  by (simp add: LoaderImpl_move_ctor_def)

lemma moved_from_source_destroys_nothing:
  "EnvironmentImpl_dtor (snd (EnvironmentImpl_move_ctor e)) = []"
  "EnvironmentImpl_dtor (fst (snd (EnvironmentImpl_move_assign e' e))) = []"
  "LoaderImpl_dtor (snd (LoaderImpl_move_ctor l)) = []"
  "LoaderImpl_dtor (fst (snd (LoaderImpl_move_assign l' l))) = []"
  "RendererImpl_dtor (snd (RendererImpl_move_ctor u r)) = []"
  "RendererImpl_dtor (fst (snd (RendererImpl_move_assign r' r))) = []"
  by (simp_all add: EnvironmentImpl_move_ctor_def EnvironmentImpl_move_assign_def
      LoaderImpl_move_ctor_def LoaderImpl_move_assign_def RendererImpl_move_ctor_def
      RendererImpl_move_assign_def EnvironmentImpl_dtor_def LoaderImpl_dtor_def
      RendererImpl_dtor_def destroy_if_held_def)

lemma moved_state_pointer:
  "l_state (fst (LoaderImpl_move_assign l' l)) = l_state l"
  "r_state (fst (RendererImpl_move_ctor u r)) = r_state r"
  "r_state (fst (RendererImpl_move_assign r' r)) = r_state r"
  by (simp_all add: LoaderImpl_move_assign_def RendererImpl_move_ctor_def
      RendererImpl_move_assign_def)

text \<open>
  C10. A moved-to handle holds every operation pointer of its source. This fails for three of
  the routines. Moving a renderer handle whose thirteen members are the addresses 101 to 112
  and the instance 7 into a new object leaves \<open>make_baker_ptr_\<close> and
  \<open>make_batch_ptr_\<close> with whatever the new object's memory held (here 0); assigning it
  to a handle of another backend (addresses 201 to 212) keeps that backend's five pointers
  for makeBaker, setActiveEnvironmentMaps, makeRenderBatch, bake and getBakeOutputPointer;
  assigning a loader handle keeps the destination's own \<open>load_env_maps_ptr_\<close>.
\<close>

theorem move_of_handles_loses_operation_pointers:
  "fst (RendererImpl_move_ctor
      \<lparr>r_destroy_ptr = 0, r_make_baker_ptr = 0, r_make_loader_ptr = 0, r_make_env_ptr = 0,
       r_set_env_maps_ptr = 0, r_make_batch_ptr = 0, r_render_ptr = 0, r_bake_ptr = 0,
       r_wait_ptr = 0, r_get_output_ptr = 0, r_get_bake_output_ptr = 0, r_get_aux_ptr = 0,
       r_state = None\<rparr>
      \<lparr>r_destroy_ptr = 100, r_make_baker_ptr = 101, r_make_loader_ptr = 102,
       r_make_env_ptr = 103, r_set_env_maps_ptr = 104, r_make_batch_ptr = 105,
       r_render_ptr = 106, r_bake_ptr = 107, r_wait_ptr = 108, r_get_output_ptr = 109,
       r_get_bake_output_ptr = 110, r_get_aux_ptr = 111, r_state = Some 7\<rparr>)
   = \<lparr>r_destroy_ptr = 100, r_make_baker_ptr = 0, r_make_loader_ptr = 102,
       r_make_env_ptr = 103, r_set_env_maps_ptr = 104, r_make_batch_ptr = 0,
       r_render_ptr = 106, r_bake_ptr = 107, r_wait_ptr = 108, r_get_output_ptr = 109,
       r_get_bake_output_ptr = 110, r_get_aux_ptr = 111, r_state = Some 7\<rparr>
   \<and> fst (RendererImpl_move_assign
      \<lparr>r_destroy_ptr = 200, r_make_baker_ptr = 201, r_make_loader_ptr = 202,
       r_make_env_ptr = 203, r_set_env_maps_ptr = 204, r_make_batch_ptr = 205,
       r_render_ptr = 206, r_bake_ptr = 207, r_wait_ptr = 208, r_get_output_ptr = 209,
       r_get_bake_output_ptr = 210, r_get_aux_ptr = 211, r_state = Some 8\<rparr>
      \<lparr>r_destroy_ptr = 100, r_make_baker_ptr = 101, r_make_loader_ptr = 102,
       r_make_env_ptr = 103, r_set_env_maps_ptr = 104, r_make_batch_ptr = 105,
       r_render_ptr = 106, r_bake_ptr = 107, r_wait_ptr = 108, r_get_output_ptr = 109,
       r_get_bake_output_ptr = 110, r_get_aux_ptr = 111, r_state = Some 7\<rparr>)
   = \<lparr>r_destroy_ptr = 100, r_make_baker_ptr = 201, r_make_loader_ptr = 102,
       r_make_env_ptr = 103, r_set_env_maps_ptr = 204, r_make_batch_ptr = 205,
       r_render_ptr = 106, r_bake_ptr = 207, r_wait_ptr = 108, r_get_output_ptr = 109,
       r_get_bake_output_ptr = 210, r_get_aux_ptr = 111, r_state = Some 7\<rparr>
   \<and> fst (LoaderImpl_move_assign
      \<lparr>l_destroy_ptr = 20, l_load_scene_ptr = 21, l_load_env_maps_ptr = 22,
       l_state = Some 2\<rparr>
      \<lparr>l_destroy_ptr = 10, l_load_scene_ptr = 11, l_load_env_maps_ptr = 12,
       l_state = Some 1\<rparr>)
   = \<lparr>l_destroy_ptr = 10, l_load_scene_ptr = 11, l_load_env_maps_ptr = 22,
       l_state = Some 1\<rparr>"
  by (simp add: RendererImpl_move_ctor_def RendererImpl_move_assign_def
      LoaderImpl_move_assign_def)

section \<open>Adaptive sampling\<close>

lemma processAdaptiveTile_returns_early:
  "processAdaptiveTile cfg fb_cfg rb batch_idx tile_x tile_y tiles = tiles"
  by (simp add: processAdaptiveTile_def Let_def)

lemma foldl_unchanged:
  "(\<And>a x. f a x = a) \<Longrightarrow> foldl f a xs = a"
  by (induction xs arbitrary: a) simp_all

lemma processTiles_emits_nothing:
  "processTiles processAdaptiveTile cfg fb_cfg rb = []"
  unfolding processTiles_def
  by (rule foldl_unchanged) (simp add: processAdaptiveTile_returns_early split: prod.splits)

lemma adaptiveLoop_single_pass:
  "adaptiveLoop cfg fb_cfg gpu fc =
     \<lparr>frame_counter = fc + of_nat (batchSize cfg), iterations = 1, dispatches = [],
      left_by_break = True\<rparr>"
  unfolding adaptiveLoop_def
  by (subst adaptiveLoopWith.simps) (simp add: processTiles_emits_nothing max_adaptive_iters_def)

text \<open>
  C1. A tile that is under-sampled or whose normalised variance is at or above the threshold
  is re-emitted. The code does not do it. One environment, one tile, 64 samples per pixel in
  chunks of 16; the tile was read back with one sample, mean 1, second moment 1000 and
  illuminance 1, so it is far from converged by either reading of the variance test. The
  pass over the tiles writes no work item, and the convergence loop leaves through
  \<open>break\<close> in its first pass without a dispatch. The statements behind \<open>return;\<close>
  would have written the tile's four work items.
\<close>

theorem unconverged_tile_is_not_re_emitted:
  "processTiles processAdaptiveTile
     \<lparr>batchSize = 1, spp = 64, adaptiveSampling = True, adaptive_samples_per_thread = 16\<rparr>
     \<lparr>numTilesWide = 1, numTilesTall = 1\<rparr>
     (\<lambda>i. \<lparr>tileMean = 1, tileVarianceM2 = 1000, numSamples = 1\<rparr>, \<lambda>i. 1) = []
   \<and> dispatches (adaptiveLoop
     \<lparr>batchSize = 1, spp = 64, adaptiveSampling = True, adaptive_samples_per_thread = 16\<rparr>
     \<lparr>numTilesWide = 1, numTilesTall = 1\<rparr>
     (\<lambda>k. (\<lambda>i. \<lparr>tileMean = 1, tileVarianceM2 = 1000, numSamples = 1\<rparr>, \<lambda>i. 1)) 0) = []
   \<and> map sampleOffset (processTiles processAdaptiveTile_unreached
     \<lparr>batchSize = 1, spp = 64, adaptiveSampling = True, adaptive_samples_per_thread = 16\<rparr>
     \<lparr>numTilesWide = 1, numTilesTall = 1\<rparr>
     (\<lambda>i. \<lparr>tileMean = 1, tileVarianceM2 = 1000, numSamples = 1\<rparr>, \<lambda>i. 1))
     = [0, 16, 32, 48]"
proof -
  have upt4: "[0 ..< 4] = [0, 1, 2, 3]"
    by (simp add: upt_rec)
  show ?thesis
    by (simp add: processTiles_emits_nothing adaptiveLoop_single_pass)
       (simp add: processTiles_def tile_order_def processAdaptiveTile_unreached_def
          sample_offsets_def norm_variance_threshold_def writeTile_def upt4 Let_def)
qed






section \<open>Rebuilding the TLAS of dirty environments\<close>

text \<open>
  What the TLAS loop does, in closed form: each dirty environment among the first \<open>n\<close>
  is built once and cleared, in place, and the others are left alone.
\<close>

lemma buildTLASLoop_envs:
  "n \<le> length es \<Longrightarrow>
   fst (buildTLASLoop k n es built)
     = take k es
       @ map (\<lambda>e. if dirty e then clearDirty (tlas_build e) else e) (take (n - k) (drop k es))
       @ drop (max k n) es"
proof (induction k n es built rule: buildTLASLoop.induct)
  case (1 k n es built)
  let ?r = "\<lambda>e. if dirty e then clearDirty (tlas_build e) else e"
  show ?case
  proof (cases "k < n")
    case False
    then show ?thesis by (subst buildTLASLoop.simps) (simp add: max_def)
  next
    case lt: True
    then have kl: "k < length es" using "1.prems" by simp
    have split: "take (n - k) (drop k es) = es ! k # take (n - Suc k) (drop (Suc k) es)"
      using lt kl by (metis Cons_nth_drop_Suc Suc_diff_Suc take_Suc_Cons)
    show ?thesis
    proof (cases "isDirty (es ! k)")
      case True
      let ?es = "es[k := clearDirty (tlas_build (es ! k))]"
      have "fst (buildTLASLoop k n es built) = fst (buildTLASLoop (Suc k) n ?es (built @ [k]))"
        using lt True by (subst buildTLASLoop.simps) simp
      also have "\<dots> = take (Suc k) ?es @ map ?r (take (n - Suc k) (drop (Suc k) ?es))
           @ drop (max (Suc k) n) ?es"
        using "1.IH"(1)[OF lt True] "1.prems" by simp
      also have "\<dots> = take k es @ map ?r (take (n - k) (drop k es)) @ drop (max k n) es"
        using lt kl True by (simp add: split take_Suc_conv_app_nth isDirty_def max_def)
      finally show ?thesis .
    next
      case False
      have "fst (buildTLASLoop k n es built) = fst (buildTLASLoop (Suc k) n es built)"
        using lt False by (subst buildTLASLoop.simps) simp
      also have "\<dots> = take (Suc k) es @ map ?r (take (n - Suc k) (drop (Suc k) es))
           @ drop (max (Suc k) n) es"
        using "1.IH"(2)[OF lt False] "1.prems" by simp
      also have "\<dots> = take k es @ map ?r (take (n - k) (drop k es)) @ drop (max k n) es"
        using lt kl False by (simp add: split take_Suc_conv_app_nth isDirty_def max_def)
      finally show ?thesis .
    qed
  qed
qed

lemma buildTLASLoop_built:
  "n \<le> length es \<Longrightarrow>
   snd (buildTLASLoop k n es built) = built @ filter (\<lambda>j. dirty (es ! j)) [k ..< n]"
proof (induction k n es built rule: buildTLASLoop.induct)
  case (1 k n es built)
  show ?case
  proof (cases "k < n")
    case False
    then show ?thesis by (subst buildTLASLoop.simps) simp
  next
    case lt: True
    have up: "[k ..< n] = k # [Suc k ..< n]"
      using lt by (simp add: upt_conv_Cons)
    show ?thesis
    proof (cases "isDirty (es ! k)")
      case True
      let ?es = "es[k := clearDirty (tlas_build (es ! k))]"
      have same: "filter (\<lambda>j. dirty (?es ! j)) [Suc k ..< n]
          = filter (\<lambda>j. dirty (es ! j)) [Suc k ..< n]"
        by (rule filter_cong) auto
      have "snd (buildTLASLoop k n es built) = snd (buildTLASLoop (Suc k) n ?es (built @ [k]))"
        using lt True by (subst buildTLASLoop.simps) simp
      also have "\<dots> = (built @ [k]) @ filter (\<lambda>j. dirty (es ! j)) [Suc k ..< n]"
        using "1.IH"(1)[OF lt True] "1.prems" same by simp
      finally show ?thesis using True by (simp add: up isDirty_def)
    next
      case False
      have "snd (buildTLASLoop k n es built) = snd (buildTLASLoop (Suc k) n es built)"
        using lt False by (subst buildTLASLoop.simps) simp
      also have "\<dots> = built @ filter (\<lambda>j. dirty (es ! j)) [Suc k ..< n]"
        using "1.IH"(2)[OF lt False] "1.prems" by simp
      finally show ?thesis using False by (simp add: up isDirty_def)
    qed
  qed
qed

lemma count_list_filter_upt:
  "i < n \<Longrightarrow> count_list (filter P [0 ..< n]) i = (if P i then 1 else 0)"
  by (induction n) (auto simp: less_Suc_eq)

lemma render_envs:
  "length (envs s) = batchSize cfg \<Longrightarrow>
   envs (fst (render cfg fb_cfg gpu s))
     = map (\<lambda>e. if dirty e then clearDirty (tlas_build e) else e) (envs s)"
  by (simp add: render_def Let_def buildTLASLoop_envs)

lemma render_tlas_built:
  "length (envs s) = batchSize cfg \<Longrightarrow>
   tlas_built (snd (render cfg fb_cfg gpu s))
     = filter (\<lambda>j. dirty (envs s ! j)) [0 ..< batchSize cfg]"
  by (simp add: render_def Let_def buildTLASLoop_built)

lemma renderCalls_envs:
  "length (envs s) = batchSize cfg \<Longrightarrow>
   envs (renderCalls cfg fb_cfg gpus n s)
     = (if n = 0 then envs s
        else map (\<lambda>e. if dirty e then clearDirty (tlas_build e) else e) (envs s))"
proof (induction n)
  case 0
  show ?case by simp
next
  case (Suc n)
  have len: "length (envs (renderCalls cfg fb_cfg gpus n s)) = batchSize cfg"
    using Suc by (simp split: if_splits)
  show ?case
    using Suc.prems Suc.IH [OF Suc.prems]
    by (simp add: render_envs [OF len] clearDirty_def tlas_build_def)
qed

text \<open>
  C3. In a call of \<open>render\<close> on a batch of \<open>batchSize\<close> environments, the TLAS of the
  environment at index \<open>i\<close> is built once if its dirty flag is set when the loop reaches
  it and not at all otherwise; its flag is clear after the call; its TLAS has one build
  more exactly if it was dirty; and over any number of successive calls an environment
  that is not dirty is never built.
\<close>

theorem tlas_built_once_iff_dirty:
  assumes "length (envs s) = batchSize cfg" and "i < batchSize cfg"
  shows "count_list (tlas_built (snd (render cfg fb_cfg gpu s))) i
           = (if dirty (envs s ! i) then 1 else 0)
       \<and> \<not> dirty (envs (fst (render cfg fb_cfg gpu s)) ! i)
       \<and> tlasBuilds (envs (fst (render cfg fb_cfg gpu s)) ! i)
           = tlasBuilds (envs s ! i) + (if dirty (envs s ! i) then 1 else 0)
       \<and> tlasBuilds (envs (renderCalls cfg fb_cfg gpus n s) ! i)
           = tlasBuilds (envs s ! i) + (if dirty (envs s ! i) \<and> 0 < n then 1 else 0)
       \<and> count_list (tlas_built (snd (render cfg fb_cfg gpu
             (renderCalls cfg fb_cfg gpus (Suc n) s)))) i = 0"
proof -
  have i: "i < length (envs s)"
    using assms by simp
  have len: "length (envs (renderCalls cfg fb_cfg gpus (Suc n) s)) = batchSize cfg"
    using assms(1) renderCalls_envs [OF assms(1), of fb_cfg gpus "Suc n"] by simp
  have clean: "\<not> dirty (envs (renderCalls cfg fb_cfg gpus (Suc n) s) ! i)"
    using i renderCalls_envs [OF assms(1), of fb_cfg gpus "Suc n"]
    by (simp add: clearDirty_def)
  have later: "count_list (tlas_built (snd (render cfg fb_cfg gpu
      (renderCalls cfg fb_cfg gpus (Suc n) s)))) i = 0"
    using clean assms(2) by (simp only: render_tlas_built [OF len] count_list_filter_upt if_False)
  have first: "count_list (tlas_built (snd (render cfg fb_cfg gpu s))) i
      = (if dirty (envs s ! i) then 1 else 0)"
    using assms(2) by (simp only: render_tlas_built [OF assms(1)] count_list_filter_upt)
  show ?thesis
    using i first later
    by (simp add: render_envs [OF assms(1)] renderCalls_envs [OF assms(1)]
        clearDirty_def tlas_build_def)
qed

theorem tlas_built_once_iff_dirty_witness:
  "count_list (tlas_built (snd (render
       \<lparr>batchSize = 2, spp = 1, adaptiveSampling = False, adaptive_samples_per_thread = 1\<rparr>
       \<lparr>numTilesWide = 1, numTilesTall = 1\<rparr>
       (\<lambda>k. (\<lambda>i. \<lparr>tileMean = 0, tileVarianceM2 = 0, numSamples = 0\<rparr>, \<lambda>i. 0))
       \<lparr>envs = [\<lparr>dirty = True, tlasBuilds = 0\<rparr>, \<lparr>dirty = False, tlasBuilds = 5\<rparr>],
        batch = makeRenderBatch 1 2, b_frame_counter = 0, b_cur_queue = 0\<rparr>))) 0 = 1
   \<and> tlasBuilds (envs (renderCalls
       \<lparr>batchSize = 2, spp = 1, adaptiveSampling = False, adaptive_samples_per_thread = 1\<rparr>
       \<lparr>numTilesWide = 1, numTilesTall = 1\<rparr>
       (\<lambda>n k. (\<lambda>i. \<lparr>tileMean = 0, tileVarianceM2 = 0, numSamples = 0\<rparr>, \<lambda>i. 0)) 3
       \<lparr>envs = [\<lparr>dirty = True, tlasBuilds = 0\<rparr>, \<lparr>dirty = False, tlasBuilds = 5\<rparr>],
        batch = makeRenderBatch 1 2, b_frame_counter = 0, b_cur_queue = 0\<rparr>) ! 0) = 1
   \<and> tlasBuilds (envs (renderCalls
       \<lparr>batchSize = 2, spp = 1, adaptiveSampling = False, adaptive_samples_per_thread = 1\<rparr>
       \<lparr>numTilesWide = 1, numTilesTall = 1\<rparr>
       (\<lambda>n k. (\<lambda>i. \<lparr>tileMean = 0, tileVarianceM2 = 0, numSamples = 0\<rparr>, \<lambda>i. 0)) 3
       \<lparr>envs = [\<lparr>dirty = True, tlasBuilds = 0\<rparr>, \<lparr>dirty = False, tlasBuilds = 5\<rparr>],
        batch = makeRenderBatch 1 2, b_frame_counter = 0, b_cur_queue = 0\<rparr>) ! 1) = 5"
  using tlas_built_once_iff_dirty [of
      "\<lparr>envs = [\<lparr>dirty = True, tlasBuilds = 0\<rparr>, \<lparr>dirty = False, tlasBuilds = 5\<rparr>],
        batch = makeRenderBatch 1 2, b_frame_counter = 0, b_cur_queue = 0\<rparr>"
      "\<lparr>batchSize = 2, spp = 1, adaptiveSampling = False, adaptive_samples_per_thread = 1\<rparr>"
      0 "\<lparr>numTilesWide = 1, numTilesTall = 1\<rparr>"
      "(\<lambda>k. (\<lambda>i. \<lparr>tileMean = 0, tileVarianceM2 = 0, numSamples = 0\<rparr>, \<lambda>i. 0))"
      "(\<lambda>n k. (\<lambda>i. \<lparr>tileMean = 0, tileVarianceM2 = 0, numSamples = 0\<rparr>, \<lambda>i. 0))" 3]
    tlas_built_once_iff_dirty [of
      "\<lparr>envs = [\<lparr>dirty = True, tlasBuilds = 0\<rparr>, \<lparr>dirty = False, tlasBuilds = 5\<rparr>],
        batch = makeRenderBatch 1 2, b_frame_counter = 0, b_cur_queue = 0\<rparr>"
      "\<lparr>batchSize = 2, spp = 1, adaptiveSampling = False, adaptive_samples_per_thread = 1\<rparr>"
      1 "\<lparr>numTilesWide = 1, numTilesTall = 1\<rparr>"
      "(\<lambda>k. (\<lambda>i. \<lparr>tileMean = 0, tileVarianceM2 = 0, numSamples = 0\<rparr>, \<lambda>i. 0))"
      "(\<lambda>n k. (\<lambda>i. \<lparr>tileMean = 0, tileVarianceM2 = 0, numSamples = 0\<rparr>, \<lambda>i. 0))" 3]
  by simp

section \<open>The two reservoirs\<close>

lemma render_batch:
  "batch (fst (render cfg fb_cfg gpu s))
     = (batch s)\<lparr>curBuffer := (curBuffer (batch s) + 1) AND 1\<rparr>"
  by (simp add: render_def Let_def)

lemma render_bound_set:
  "bound_set (snd (render cfg fb_cfg gpu s)) = rtSets (batch s) ! unat (curBuffer (batch s))"
  by (simp add: render_def Let_def)

lemma rtSets_makeRenderBatch:
  "rtSets (makeRenderBatch r0 r1) = [[11 \<mapsto> r0, 12 \<mapsto> r1], [12 \<mapsto> r0, 11 \<mapsto> r1]]"
  by (simp add: makeRenderBatch_def makePerBatchState_reservoirs_def desc_updates_buffer_def
      Let_def)

lemma renderCalls_fresh_batch:
  "batch s = makeRenderBatch r0 r1 \<Longrightarrow>
   batch (renderCalls cfg fb_cfg gpus n s)
     = (makeRenderBatch r0 r1)\<lparr>curBuffer := (if even n then 0 else 1)\<rparr>"
proof (induction n)
  case 0
  then show ?case by (simp add: makeRenderBatch_def)
next
  case (Suc n)
  have flip: "((0 :: 32 word) + 1) AND 1 = 1" "((1 :: 32 word) + 1) AND 1 = 0"
    by simp_all
  show ?case using Suc flip by (simp add: render_batch)
qed

text \<open>
  C5. On a batch as \<open>makeRenderBatch\<close> makes it, with two distinct reservoir buffers:
  before the \<open>n\<close>-th call (counting from 0) the current-buffer index is 0 for even and 1
  for odd \<open>n\<close>, and each call flips it; the reservoir that call \<open>n\<close> has bound as current
  is the one call \<open>n + 1\<close> has bound as previous, and the other way round; and in each of
  the batch's two descriptor sets the current and the previous binding hold different
  buffers.
\<close>

theorem reservoir_roles_swap_each_call:
  assumes "reservoir0 \<noteq> reservoir1" and "batch s = makeRenderBatch reservoir0 reservoir1"
  shows "(let sN = renderCalls cfg fb_cfg gpus n s;
              callN = render cfg fb_cfg (gpus n) sN;
              callN1 = render cfg fb_cfg (gpus (Suc n)) (fst callN)
          in curBuffer (batch sN) = (if even n then 0 else 1)
           \<and> curBuffer (batch (fst callN)) = (if even n then 1 else 0)
           \<and> curBuffer (batch (fst callN1)) = curBuffer (batch sN)
           \<and> bound_set (snd callN) current_reservoir_binding
               = Some (if even n then reservoir0 else reservoir1)
           \<and> bound_set (snd callN) previous_reservoir_binding
               = Some (if even n then reservoir1 else reservoir0)
           \<and> bound_set (snd callN1) previous_reservoir_binding
               = bound_set (snd callN) current_reservoir_binding
           \<and> bound_set (snd callN1) current_reservoir_binding
               = bound_set (snd callN) previous_reservoir_binding
           \<and> length (rtSets (batch sN)) = 2
           \<and> list_all (\<lambda>set. set current_reservoir_binding \<noteq> set previous_reservoir_binding)
               (rtSets (batch sN)))"
proof -
  have sN: "batch (renderCalls cfg fb_cfg gpus n s)
      = (makeRenderBatch reservoir0 reservoir1)\<lparr>curBuffer := (if even n then 0 else 1)\<rparr>"
    using assms(2) by (rule renderCalls_fresh_batch)
  show ?thesis
    using assms(1)
    by (simp add: Let_def render_batch render_bound_set sN rtSets_makeRenderBatch
        current_reservoir_binding_def previous_reservoir_binding_def)
qed

theorem reservoir_roles_swap_each_call_witness:
  "bound_set (snd (render
       \<lparr>batchSize = 1, spp = 1, adaptiveSampling = False, adaptive_samples_per_thread = 1\<rparr>
       \<lparr>numTilesWide = 1, numTilesTall = 1\<rparr>
       (\<lambda>k. (\<lambda>i. \<lparr>tileMean = 0, tileVarianceM2 = 0, numSamples = 0\<rparr>, \<lambda>i. 0))
       \<lparr>envs = [\<lparr>dirty = False, tlasBuilds = 0\<rparr>], batch = makeRenderBatch 7 9, b_frame_counter = 0, b_cur_queue = 0\<rparr>))
     current_reservoir_binding = Some 7
   \<and> bound_set (snd (render
       \<lparr>batchSize = 1, spp = 1, adaptiveSampling = False, adaptive_samples_per_thread = 1\<rparr>
       \<lparr>numTilesWide = 1, numTilesTall = 1\<rparr>
       (\<lambda>k. (\<lambda>i. \<lparr>tileMean = 0, tileVarianceM2 = 0, numSamples = 0\<rparr>, \<lambda>i. 0))
       (fst (render
         \<lparr>batchSize = 1, spp = 1, adaptiveSampling = False, adaptive_samples_per_thread = 1\<rparr>
         \<lparr>numTilesWide = 1, numTilesTall = 1\<rparr>
         (\<lambda>k. (\<lambda>i. \<lparr>tileMean = 0, tileVarianceM2 = 0, numSamples = 0\<rparr>, \<lambda>i. 0))
         \<lparr>envs = [\<lparr>dirty = False, tlasBuilds = 0\<rparr>], batch = makeRenderBatch 7 9, b_frame_counter = 0,
          b_cur_queue = 0\<rparr>))))
     previous_reservoir_binding = Some 7"
  using reservoir_roles_swap_each_call [of 7 9
      "\<lparr>envs = [\<lparr>dirty = False, tlasBuilds = 0\<rparr>], batch = makeRenderBatch 7 9, b_frame_counter = 0, b_cur_queue = 0\<rparr>"
      "\<lparr>batchSize = 1, spp = 1, adaptiveSampling = False, adaptive_samples_per_thread = 1\<rparr>"
      "\<lparr>numTilesWide = 1, numTilesTall = 1\<rparr>"
      "(\<lambda>n k. (\<lambda>i. \<lparr>tileMean = 0, tileVarianceM2 = 0, numSamples = 0\<rparr>, \<lambda>i. 0))" 0]
  by (simp add: Let_def)

section \<open>The layout of the parameter buffer\<close>

lemma align_ge:
  "0 < storageBufferOffsetAlignment alloc \<Longrightarrow> x \<le> alignStorageBufferOffset alloc x"
proof -
  let ?a = "storageBufferOffsetAlignment alloc"
  assume a: "0 < ?a"
  have "x + (?a - 1) = (x + (?a - 1)) div ?a * ?a + (x + (?a - 1)) mod ?a"
    by simp
  moreover have "(x + (?a - 1)) mod ?a \<le> ?a - 1"
    using a mod_less_divisor [of ?a "x + (?a - 1)"] by linarith
  ultimately have "x + (?a - 1) \<le> (x + (?a - 1)) div ?a * ?a + (?a - 1)"
    by linarith
  then have "x \<le> (x + (?a - 1)) div ?a * ?a"
    by linarith
  moreover have "x + ?a - 1 = x + (?a - 1)"
    using a by simp
  ultimately show ?thesis
    by (simp add: alignStorageBufferOffset_def)
qed

lemma align_lt:
  "0 < storageBufferOffsetAlignment alloc \<Longrightarrow>
   alignStorageBufferOffset alloc x < x + storageBufferOffsetAlignment alloc"
proof -
  let ?a = "storageBufferOffsetAlignment alloc"
  assume a: "0 < ?a"
  have "(x + ?a - 1) div ?a * ?a \<le> x + ?a - 1"
    by (rule div_times_less_eq_dividend)
  also have "\<dots> < x + ?a"
    using a by simp
  finally show ?thesis
    by (simp add: alignStorageBufferOffset_def)
qed

lemma align_dvd:
  "storageBufferOffsetAlignment alloc dvd alignStorageBufferOffset alloc x"
  by (simp add: alignStorageBufferOffset_def)

lemma align_of_multiple:
  "0 < storageBufferOffsetAlignment alloc \<Longrightarrow> storageBufferOffsetAlignment alloc dvd x \<Longrightarrow>
   alignStorageBufferOffset alloc x = x"
proof -
  let ?a = "storageBufferOffsetAlignment alloc"
  assume a: "0 < ?a" and d: "?a dvd x"
  from d obtain k where x: "x = ?a * k" ..
  have "?a * k + ?a - 1 = (?a - 1) + k * ?a"
    using a by (simp add: mult.commute)
  then have "(?a * k + ?a - 1) div ?a = ((?a - 1) + k * ?a) div ?a"
    by simp
  also have "\<dots> = k + (?a - 1) div ?a"
    using a by (subst div_mult_self1) simp_all
  also have "\<dots> = k"
    using a by simp
  finally show ?thesis
    by (simp add: alignStorageBufferOffset_def x mult.commute)
qed

text \<open>The 64-bit arithmetic of the source cannot wrap within these bounds.\<close>

lemma getParamBufferConfig_fits_64_bits:
  assumes "0 < storageBufferOffsetAlignment alloc"
    and "storageBufferOffsetAlignment alloc \<le> 2 ^ 16"
    and "sizeof_InstanceTransform sz \<le> 2 ^ 16" and "sizeof_PackedLight sz \<le> 2 ^ 16"
    and "sizeof_PackedEnv sz \<le> 2 ^ 16"
    and "max_instances sz < 2 ^ 32" and "max_lights sz < 2 ^ 32" and "batch_size < 2 ^ 32"
  shows "totalParamBytes (getParamBufferConfig sz batch_size alloc) < 2 ^ 64"
proof -
  let ?a = "storageBufferOffsetAlignment alloc"
  have t: "sizeof_InstanceTransform sz * max_instances sz \<le> 2 ^ 16 * 2 ^ 32"
    using assms(3,6) by (intro mult_le_mono) simp_all
  have m: "4 * max_instances sz \<le> 4 * 2 ^ 32"
    using assms(6) by simp
  have l: "sizeof_PackedLight sz * max_lights sz \<le> 2 ^ 16 * 2 ^ 32"
    using assms(4,7) by (intro mult_le_mono) simp_all
  have e: "sizeof_PackedEnv sz * batch_size \<le> 2 ^ 16 * 2 ^ 32"
    using assms(5,8) by (intro mult_le_mono) simp_all
  have al: "alignStorageBufferOffset alloc x < x + 2 ^ 16 + 1" for x
    using align_lt [OF assms(1), of x] assms(2) by linarith
  let ?o1 = "alignStorageBufferOffset alloc (sizeof_InstanceTransform sz * max_instances sz)"
  let ?o2 = "alignStorageBufferOffset alloc (?o1 + 4 * max_instances sz)"
  let ?o3 = "alignStorageBufferOffset alloc (?o2 + sizeof_PackedLight sz * max_lights sz)"
  let ?o4 = "alignStorageBufferOffset alloc (?o3 + sizeof_PackedEnv sz * batch_size)"
  have "?o4 < 2 ^ 64"
    using al [of "sizeof_InstanceTransform sz * max_instances sz"]
      al [of "?o1 + 4 * max_instances sz"]
      al [of "?o2 + sizeof_PackedLight sz * max_lights sz"]
      al [of "?o3 + sizeof_PackedEnv sz * batch_size"] t m l e
    by simp
  then show ?thesis
    by (simp add: getParamBufferConfig_def Let_def)
qed

text \<open>
  C4, as stated, for the total: it would be the sum of the sub-region sizes rounded up. With
  an alignment of 256 bytes, one instance of 96 bytes, one light of 32 bytes and a batch of
  one environment of 128 bytes the four regions hold 96 + 4 + 32 + 128 = 260 bytes, which
  round up to 512; the computed total is 1024, because each region starts at the next
  multiple of 256.
\<close>

theorem total_is_not_rounded_sum_of_sizes:
  "totalParamBytes (getParamBufferConfig
       \<lparr>sizeof_InstanceTransform = 96, sizeof_PackedLight = 32, sizeof_PackedEnv = 128,
        max_instances = 1, max_lights = 1\<rparr> 1 \<lparr>storageBufferOffsetAlignment = 256\<rparr>) = 1024
   \<and> alignStorageBufferOffset \<lparr>storageBufferOffsetAlignment = 256\<rparr>
       (totalTransformBytes (getParamBufferConfig
          \<lparr>sizeof_InstanceTransform = 96, sizeof_PackedLight = 32, sizeof_PackedEnv = 128,
           max_instances = 1, max_lights = 1\<rparr> 1 \<lparr>storageBufferOffsetAlignment = 256\<rparr>)
        + totalMaterialIndexBytes (getParamBufferConfig
          \<lparr>sizeof_InstanceTransform = 96, sizeof_PackedLight = 32, sizeof_PackedEnv = 128,
           max_instances = 1, max_lights = 1\<rparr> 1 \<lparr>storageBufferOffsetAlignment = 256\<rparr>)
        + totalLightParamBytes (getParamBufferConfig
          \<lparr>sizeof_InstanceTransform = 96, sizeof_PackedLight = 32, sizeof_PackedEnv = 128,
           max_instances = 1, max_lights = 1\<rparr> 1 \<lparr>storageBufferOffsetAlignment = 256\<rparr>)
        + totalEnvParamBytes (getParamBufferConfig
          \<lparr>sizeof_InstanceTransform = 96, sizeof_PackedLight = 32, sizeof_PackedEnv = 128,
           max_instances = 1, max_lights = 1\<rparr> 1 \<lparr>storageBufferOffsetAlignment = 256\<rparr>))
     = 512"
  by (simp add: getParamBufferConfig_def alignStorageBufferOffset_def Let_def)

lemma align_add_multiple:
  assumes "0 < storageBufferOffsetAlignment alloc" and "storageBufferOffsetAlignment alloc dvd x"
  shows "alignStorageBufferOffset alloc (x + y) = x + alignStorageBufferOffset alloc y"
proof -
  let ?a = "storageBufferOffsetAlignment alloc"
  from assms(2) obtain k where x: "x = ?a * k" ..
  have "?a * k + y + ?a - 1 = (y + ?a - 1) + k * ?a"
    using assms(1) by (simp add: mult.commute)
  then have "(?a * k + y + ?a - 1) div ?a = ((y + ?a - 1) + k * ?a) div ?a"
    by simp
  also have "\<dots> = k + (y + ?a - 1) div ?a"
    using assms(1) by (subst div_mult_self1) simp_all
  finally show ?thesis
    by (simp add: alignStorageBufferOffset_def x algebra_simps)
qed

text \<open>
  C4, amended. For every batch size and every positive alignment the layout is this: the
  transform region starts at 0, and the material-index, light and environment regions
  start where the regions before them end when each of those is rounded up to the
  alignment; the total is the sum of the four region sizes, each rounded up to the
  alignment. Hence every offset and the total are multiples of the alignment, each region
  ends at or before the next offset and the last one at or before the total (the regions
  do not overlap, and the offsets increase, strictly where the region before is not
  empty), and the rounding adds less than one alignment to a region. The total is at least
  the sum of the region sizes rounded up as a whole, and equal to it when the sizes of the
  transform, material-index and light regions are multiples of the alignment.
\<close>

theorem param_buffer_layout:
  assumes "0 < storageBufferOffsetAlignment alloc"
  shows "(let c = getParamBufferConfig sz batch_size alloc;
              a = storageBufferOffsetAlignment alloc;
              up = alignStorageBufferOffset alloc
          in totalTransformBytes c = sizeof_InstanceTransform sz * max_instances sz
           \<and> totalMaterialIndexBytes c = 4 * max_instances sz
           \<and> totalLightParamBytes c = sizeof_PackedLight sz * max_lights sz
           \<and> totalEnvParamBytes c = sizeof_PackedEnv sz * batch_size
           \<and> materialIndicesOffset c = up (totalTransformBytes c)
           \<and> lightsOffset c = up (totalTransformBytes c) + up (totalMaterialIndexBytes c)
           \<and> envOffset c = up (totalTransformBytes c) + up (totalMaterialIndexBytes c)
                 + up (totalLightParamBytes c)
           \<and> totalParamBytes c
               = up (totalTransformBytes c) + up (totalMaterialIndexBytes c)
                 + up (totalLightParamBytes c) + up (totalEnvParamBytes c)
           \<and> (\<forall>x. x \<le> up x \<and> up x < x + a \<and> a dvd up x)
           \<and> a dvd materialIndicesOffset c \<and> a dvd lightsOffset c \<and> a dvd envOffset c
           \<and> a dvd totalParamBytes c
           \<and> totalTransformBytes c \<le> materialIndicesOffset c
           \<and> materialIndicesOffset c + totalMaterialIndexBytes c \<le> lightsOffset c
           \<and> lightsOffset c + totalLightParamBytes c \<le> envOffset c
           \<and> envOffset c + totalEnvParamBytes c \<le> totalParamBytes c
           \<and> up (totalTransformBytes c + totalMaterialIndexBytes c + totalLightParamBytes c
                  + totalEnvParamBytes c) \<le> totalParamBytes c
           \<and> (a dvd totalTransformBytes c \<and> a dvd totalMaterialIndexBytes c
                 \<and> a dvd totalLightParamBytes c \<longrightarrow>
               totalParamBytes c
                 = up (totalTransformBytes c + totalMaterialIndexBytes c
                       + totalLightParamBytes c + totalEnvParamBytes c)))"
proof -
  let ?a = "storageBufferOffsetAlignment alloc"
  let ?up = "alignStorageBufferOffset alloc"
  let ?T = "sizeof_InstanceTransform sz * max_instances sz"
  let ?M = "4 * max_instances sz"
  let ?L = "sizeof_PackedLight sz * max_lights sz"
  let ?E = "sizeof_PackedEnv sz * batch_size"
  note ge = align_ge [OF assms]
  note lt = align_lt [OF assms]
  note dv = align_dvd [of alloc]
  have o2: "?up (?up ?T + ?M) = ?up ?T + ?up ?M"
    by (rule align_add_multiple [OF assms dv])
  have o3: "?up (?up ?T + ?up ?M + ?L) = ?up ?T + ?up ?M + ?up ?L"
    by (rule align_add_multiple [OF assms]) (simp add: dv)
  have o4: "?up (?up ?T + ?up ?M + ?up ?L + ?E) = ?up ?T + ?up ?M + ?up ?L + ?up ?E"
    by (rule align_add_multiple [OF assms]) (simp add: dv)
  have mono: "x \<le> y \<Longrightarrow> ?up x \<le> ?up y" for x y
    unfolding alignStorageBufferOffset_def
    by (intro mult_le_mono1 div_le_mono) simp
  have "?T + ?M + ?L + ?E \<le> ?up ?T + ?up ?M + ?up ?L + ?E"
    using ge [of ?T] ge [of ?M] ge [of ?L] by linarith
  then have "?up (?T + ?M + ?L + ?E) \<le> ?up (?up ?T + ?up ?M + ?up ?L + ?E)"
    by (rule mono)
  then have low: "?up (?T + ?M + ?L + ?E) \<le> ?up ?T + ?up ?M + ?up ?L + ?up ?E"
    by (simp only: o4)
  have exact: "?up ?T + ?up ?M + ?up ?L + ?up ?E = ?up (?T + ?M + ?L + ?E)"
    if d: "?a dvd ?T" "?a dvd ?M" "?a dvd ?L"
  proof -
    have "?up ?T = ?T" "?up ?M = ?M" "?up ?L = ?L"
      using align_of_multiple [OF assms] d by simp_all
    moreover have "?up (?T + ?M + ?L + ?E) = ?T + ?M + ?L + ?up ?E"
      by (rule align_add_multiple [OF assms]) (simp add: d)
    ultimately show ?thesis
      by (simp only:)
  qed
  have cfg: "getParamBufferConfig sz batch_size alloc
      = \<lparr>totalTransformBytes = ?T, materialIndicesOffset = ?up ?T,
         totalMaterialIndexBytes = ?M, lightsOffset = ?up ?T + ?up ?M,
         totalLightParamBytes = ?L, envOffset = ?up ?T + ?up ?M + ?up ?L,
         totalEnvParamBytes = ?E,
         totalParamBytes = ?up ?T + ?up ?M + ?up ?L + ?up ?E\<rparr>"
    by (simp add: getParamBufferConfig_def Let_def o2 o3 o4)
  have pin: "\<forall>x. x \<le> ?up x \<and> ?up x < x + ?a \<and> ?a dvd ?up x"
    using ge lt dv by blast
  show ?thesis
    unfolding Let_def cfg ParamBufferConfig.select_convs
    using ge [of ?T] ge [of ?M] ge [of ?L] ge [of ?E] low exact pin
    by (simp add: dv)
qed

theorem param_buffer_layout_witness:
  "getParamBufferConfig
       \<lparr>sizeof_InstanceTransform = 96, sizeof_PackedLight = 32, sizeof_PackedEnv = 128,
        max_instances = 1, max_lights = 1\<rparr> 1 \<lparr>storageBufferOffsetAlignment = 256\<rparr>
     = \<lparr>totalTransformBytes = 96, materialIndicesOffset = 256,
        totalMaterialIndexBytes = 4, lightsOffset = 512, totalLightParamBytes = 32,
        envOffset = 768, totalEnvParamBytes = 128, totalParamBytes = 1024\<rparr>
   \<and> alignStorageBufferOffset \<lparr>storageBufferOffsetAlignment = 256\<rparr> 96
       + alignStorageBufferOffset \<lparr>storageBufferOffsetAlignment = 256\<rparr> 4
       + alignStorageBufferOffset \<lparr>storageBufferOffsetAlignment = 256\<rparr> 32
       + alignStorageBufferOffset \<lparr>storageBufferOffsetAlignment = 256\<rparr> 128 = 1024
   \<and> totalParamBytes (getParamBufferConfig
       \<lparr>sizeof_InstanceTransform = 96, sizeof_PackedLight = 32, sizeof_PackedEnv = 128,
        max_instances = 64, max_lights = 8\<rparr> 3 \<lparr>storageBufferOffsetAlignment = 256\<rparr>)
     = alignStorageBufferOffset \<lparr>storageBufferOffsetAlignment = 256\<rparr>
         (6144 + 256 + 256 + 384)"
  using param_buffer_layout [of "\<lparr>storageBufferOffsetAlignment = 256\<rparr>"
      "\<lparr>sizeof_InstanceTransform = 96, sizeof_PackedLight = 32, sizeof_PackedEnv = 128,
        max_instances = 1, max_lights = 1\<rparr>" 1]
    param_buffer_layout [of "\<lparr>storageBufferOffsetAlignment = 256\<rparr>"
      "\<lparr>sizeof_InstanceTransform = 96, sizeof_PackedLight = 32, sizeof_PackedEnv = 128,
        max_instances = 64, max_lights = 8\<rparr>" 3]
  by (simp add: getParamBufferConfig_def alignStorageBufferOffset_def Let_def)

section \<open>Choosing the sampling scheme\<close>

lemma adaptive_spp_too_low_is_fatal:
  "flag_AdaptiveSample cfg \<Longrightarrow> rc_spp cfg < adaptive_spt \<Longrightarrow>
   makeRenderState_sampling clz0 adaptive_spt cfg
     = Inl [''SPP per launch too low for adaptive sampling - ''
              @ decimal (unat adaptive_spt)]"
  by (simp add: makeRenderState_sampling_def)

lemma enough_index_bits_give_zsobol:
  "\<not> (flag_AdaptiveSample cfg \<and> rc_spp cfg < adaptive_spt) \<Longrightarrow>
   num_index_digits_base4 clz0 cfg * 2 \<le> 32 \<Longrightarrow> \<not> flag_ForceUniform cfg \<Longrightarrow>
   \<exists>setup. makeRenderState_sampling clz0 adaptive_spt cfg = Inr setup
     \<and> sampling setup = ZSOBOL_SAMPLING \<and> cerr setup = []"
  by (simp add: makeRenderState_sampling_def Let_def)

lemma index_digits_of_wide_image:
  "num_index_digits_base4 0
     \<lparr>imgWidth = 131073, imgHeight = 1080, rc_spp = 1, flag_AdaptiveSample = a,
      flag_ForceUniform = False\<rparr> = 18"
  by (simp add: num_index_digits_base4_def log2Int_def builtin_clz_def bit_length.simps
      Let_def)

lemma decimal_16: "decimal 16 = ''16''"
  by (simp add: decimal.simps)

text \<open>
  C8 as stated fails. For an image 131073 pixels wide and 1080 high with one sample per
  pixel the index needs 18 base-4 digits, and twice that exceeds 32. With the flag
  \<open>AdaptiveSample\<close> set and 16 adaptive samples per thread the setup does not fall back to
  uniform sampling and go on: the check of the samples per launch, which stands before
  the test of the index digits, writes its message and calls \<open>fatalExit\<close>.
\<close>

theorem insufficient_index_bits_and_fatal_exit:
  "32 < num_index_digits_base4 0
          \<lparr>imgWidth = 131073, imgHeight = 1080, rc_spp = 1, flag_AdaptiveSample = True,
           flag_ForceUniform = False\<rparr> * 2
   \<and> makeRenderState_sampling 0 16
       \<lparr>imgWidth = 131073, imgHeight = 1080, rc_spp = 1, flag_AdaptiveSample = True,
        flag_ForceUniform = False\<rparr>
     = Inl [''SPP per launch too low for adaptive sampling - 16'']"
  by (simp add: index_digits_of_wide_image makeRenderState_sampling_def decimal_16)

text \<open>
  C8, amended. When twice the number of base-4 index digits exceeds 32 (the source's test
  \<open>num_index_digits_base4 * 2 <= 32\<close> fails), the setup ends in one of two ways. If
  adaptive sampling is requested with fewer samples per launch than
  \<open>adaptive_samples_per_thread\<close>, \<open>makeRenderState\<close> has written
  \<open>SPP per launch too low for adaptive sampling\<close> with that constant and called
  \<open>fatalExit\<close> before it tests the index digits. In every other case it writes the
  warning to \<open>cerr\<close>, defines \<open>UNIFORM_SAMPLING\<close> and goes on; it does not call
  \<open>fatalExit\<close>.
\<close>

theorem insufficient_index_bits_fall_back_unless_fatal:
  assumes "32 < num_index_digits_base4 clz0 cfg * 2"
  shows "(flag_AdaptiveSample cfg \<and> rc_spp cfg < adaptive_spt \<longrightarrow>
            makeRenderState_sampling clz0 adaptive_spt cfg
              = Inl [''SPP per launch too low for adaptive sampling - ''
                       @ decimal (unat adaptive_spt)])
       \<and> (\<not> (flag_AdaptiveSample cfg \<and> rc_spp cfg < adaptive_spt) \<longrightarrow>
            (\<exists>setup. makeRenderState_sampling clz0 adaptive_spt cfg = Inr setup
               \<and> sampling setup = UNIFORM_SAMPLING
               \<and> cerr setup = [zsobol_warning]
               \<and> ZSOBOL_NUM_BASE4 setup = num_index_digits_base4 clz0 cfg))"
proof -
  have "\<not> num_index_digits_base4 clz0 cfg * 2 \<le> 32"
    using assms by simp
  then show ?thesis
    by (simp add: makeRenderState_sampling_def Let_def)
qed

theorem insufficient_index_bits_fall_back_unless_fatal_witness:
  "num_index_digits_base4 0
       \<lparr>imgWidth = 131073, imgHeight = 1080, rc_spp = 1, flag_AdaptiveSample = False,
        flag_ForceUniform = False\<rparr> = 18
   \<and> (\<exists>setup. makeRenderState_sampling 0 16
       \<lparr>imgWidth = 131073, imgHeight = 1080, rc_spp = 1, flag_AdaptiveSample = False,
        flag_ForceUniform = False\<rparr> = Inr setup
       \<and> sampling setup = UNIFORM_SAMPLING \<and> cerr setup = [zsobol_warning]
       \<and> ZSOBOL_NUM_BASE4 setup = 18)
   \<and> makeRenderState_sampling 0 16
       \<lparr>imgWidth = 131073, imgHeight = 1080, rc_spp = 1, flag_AdaptiveSample = True,
        flag_ForceUniform = False\<rparr>
     = Inl [''SPP per launch too low for adaptive sampling - 16'']"
  using insufficient_index_bits_fall_back_unless_fatal [of 0
      "\<lparr>imgWidth = 131073, imgHeight = 1080, rc_spp = 1, flag_AdaptiveSample = False,
        flag_ForceUniform = False\<rparr>" 16]
    insufficient_index_bits_fall_back_unless_fatal [of 0
      "\<lparr>imgWidth = 131073, imgHeight = 1080, rc_spp = 1, flag_AdaptiveSample = True,
        flag_ForceUniform = False\<rparr>" 16]
  by (simp add: index_digits_of_wide_image decimal_16)

section \<open>The arguments of the scene-conversion tool\<close>





section \<open>Storing and loading probes\<close>

subsection \<open>Bytes\<close>

lemma length_le_bytes: "length (le_bytes k n) = k"
  by (induction k arbitrary: n) simp_all

lemma unat_byte_of_nat: "unat (of_nat (n mod 256) :: byte) = n mod 256"
  by (simp add: unat_of_nat)

lemma le_value_le_bytes: "le_value (le_bytes k n) = n mod 256 ^ k"
proof (induction k arbitrary: n)
  case 0
  show ?case by simp
next
  case (Suc k)
  have "le_value (le_bytes (Suc k) n) = n mod 256 + 256 * ((n div 256) mod 256 ^ k)"
    by (simp add: Suc unat_byte_of_nat)
  also have "\<dots> = n mod 256 ^ Suc k"
    by (simp add: mod_mult2_eq)
  finally show ?case .
qed

lemma u64_of_bytes_of_u64: "u64_of_bytes (bytes_of_u64 w) = w"
proof -
  have "unat w < 256 ^ 8"
    using unsigned_less [of w, where 'a = nat] by simp
  then show ?thesis
    by (simp add: u64_of_bytes_def bytes_of_u64_def le_value_le_bytes)
qed

lemma i32_of_bytes_of_i32: "i32_of_bytes (bytes_of_i32 w) = w"
proof -
  have "unat w < 256 ^ 4"
    using unsigned_less [of w, where 'a = nat] by simp
  then show ?thesis
    by (simp add: i32_of_bytes_def bytes_of_i32_def le_value_le_bytes)
qed

lemma length_bytes_of_u64: "length (bytes_of_u64 w) = 8"
  by (simp add: bytes_of_u64_def length_le_bytes)

lemma length_bytes_of_ivec3: "length (bytes_of_ivec3 v) = 12"
  by (cases v) (simp add: bytes_of_ivec3_def bytes_of_i32_def length_le_bytes)

lemma length_bytes_of_i32: "length (bytes_of_i32 w) = 4"
  by (simp add: bytes_of_i32_def length_le_bytes)

lemma ivec3_of_bytes_of_ivec3: "ivec3_of_bytes (bytes_of_ivec3 v) = v"
  by (cases v)
     (simp add: ivec3_of_bytes_def bytes_of_ivec3_def i32_of_bytes_of_i32
        length_bytes_of_i32)

lemma stored_over_all: "length destination \<le> length extracted \<Longrightarrow>
  stored_over extracted destination = extracted"
  by (simp add: stored_over_def)

lemma stored_over_none: "stored_over [] destination = destination"
  by (simp add: stored_over_def)

lemma length_makeStagingBuffer: "length (makeStagingBuffer junk n) = n"
  by (simp add: makeStagingBuffer_def)

subsection \<open>One record\<close>

text \<open>
  What \<open>serializeProbeToFile\<close> writes depends on the probe at the index alone; for a
  probe whose image has \<open>probe_image_bytes\<close> bytes and whose \<open>pr.size\<close> is not smaller,
  it is the size, the image, and the rest of the staging buffer.
\<close>

lemma serializeProbeToFile_nth:
  "serializeProbeToFile junk probes idx = serializeProbeToFile junk [probes ! idx] 0"
  by (simp add: serializeProbeToFile_def)

lemma serializeProbeToFile_append:
  "idx < length probes \<Longrightarrow>
   serializeProbeToFile junk (probes @ others) idx = serializeProbeToFile junk probes idx"
  by (simp add: serializeProbeToFile_def nth_append)

lemma serializeProbeToFile_record:
  assumes "length (image p) = probe_image_bytes" and "probe_image_bytes \<le> unat (pr_size p)"
  shows "serializeProbeToFile junk [p] 0
           = bytes_of_u64 (pr_size p) @ image p
             @ drop probe_image_bytes (makeStagingBuffer junk (unat (pr_size p)))"
    and "length (serializeProbeToFile junk [p] 0) = 8 + unat (pr_size p)"
  using assms
  by (simp_all add: serializeProbeToFile_def stored_over_def Let_def
      length_makeStagingBuffer length_bytes_of_u64)

text \<open>Reading such a record back from a stream that is not at its end.\<close>

lemma deserializeProbeFromFile_record:
  assumes "length (image p) = probe_image_bytes" and "probe_image_bytes \<le> unat (pr_size p)"
  shows "deserializeProbeFromFile junk req_size
           \<lparr>unread = serializeProbeToFile junk' [p] 0 @ rest, eofbit = False\<rparr>
         = (\<lparr>pr_size = req_size, image = image p\<rparr>, \<lparr>unread = rest, eofbit = False\<rparr>)"
proof -
  let ?pad = "drop probe_image_bytes (makeStagingBuffer junk' (unat (pr_size p)))"
  let ?body = "image p @ ?pad"
  have body: "length ?body = unat (pr_size p)"
    using assms by (simp add: length_makeStagingBuffer)
  have r1: "ifstream_read 8
      \<lparr>unread = serializeProbeToFile junk' [p] 0 @ rest, eofbit = False\<rparr>
      = (bytes_of_u64 (pr_size p), \<lparr>unread = ?body @ rest, eofbit = False\<rparr>)"
    by (simp add: ifstream_read_def serializeProbeToFile_record(1) [OF assms]
        length_bytes_of_u64)
  have size: "u64_of_bytes (stored_over (bytes_of_u64 (pr_size p)) (map (size_junk junk) [0 ..< 8]))
      = pr_size p"
    by (simp add: stored_over_all length_bytes_of_u64 u64_of_bytes_of_u64)
  have r2: "ifstream_read (unat (pr_size p)) \<lparr>unread = ?body @ rest, eofbit = False\<rparr>
      = (?body, \<lparr>unread = rest, eofbit = False\<rparr>)"
    using body by (simp add: ifstream_read_def)
  have staging: "stored_over ?body (makeStagingBuffer junk (unat (pr_size p))) = ?body"
    using body by (simp add: stored_over_all length_makeStagingBuffer)
  have img: "take probe_image_bytes ?body = image p"
    using assms(1) by simp
  show ?thesis
    unfolding deserializeProbeFromFile_def Let_def r1 fst_conv snd_conv size r2 staging img
    by simp
qed

text \<open>
  Reading a record at the end of the file: both reads fail, \<open>eofbit\<close> is set, and a probe
  is returned all the same, made from the indeterminate \<open>size\<close> and staging buffer.
\<close>

lemma deserializeProbeFromFile_at_end:
  "deserializeProbeFromFile junk req_size \<lparr>unread = [], eofbit = False\<rparr>
     = (\<lparr>pr_size = req_size,
         image = take probe_image_bytes
           (makeStagingBuffer junk (unat (u64_of_bytes (map (size_junk junk) [0 ..< 8]))))\<rparr>,
        \<lparr>unread = [], eofbit = True\<rparr>)"
  by (simp add: deserializeProbeFromFile_def ifstream_read_def stored_over_def Let_def)

subsection \<open>The reading loop\<close>

lemma readProbes_records:
  assumes "\<forall>p \<in> set ps. length (image p) = probe_image_bytes
             \<and> probe_image_bytes \<le> unat (pr_size p)"
  shows "readProbes junk req_size
           \<lparr>unread = concat (map (\<lambda>p. serializeProbeToFile junk' [p] 0) ps), eofbit = False\<rparr>
           probes
         = (probes @ map (\<lambda>p. \<lparr>pr_size = req_size, image = image p\<rparr>) ps
              @ [fst (deserializeProbeFromFile junk req_size \<lparr>unread = [], eofbit = False\<rparr>)],
            \<lparr>unread = [], eofbit = True\<rparr>)"
  using assms
proof (induction ps arbitrary: probes)
  case Nil
  show ?case
    by (subst readProbes.simps, subst readProbes.simps)
       (simp add: deserializeProbeFromFile_at_end)
next
  case (Cons p ps)
  have p: "length (image p) = probe_image_bytes" "probe_image_bytes \<le> unat (pr_size p)"
    using Cons.prems by simp_all
  have rest: "\<forall>p \<in> set ps. length (image p) = probe_image_bytes
      \<and> probe_image_bytes \<le> unat (pr_size p)"
    using Cons.prems by simp
  show ?case
    by (subst readProbes.simps)
       (simp add: deserializeProbeFromFile_record [OF p] Cons.IH [OF rest])
qed

lemma loadProbes_records:
  assumes "\<forall>p \<in> set ps. length (image p) = probe_image_bytes
             \<and> probe_image_bytes \<le> unat (pr_size p)"
  shows "loadProbes assertions junk req_size
           (bytes_of_ivec3 PROBE_DIM @ concat (map (\<lambda>p. serializeProbeToFile junk' [p] 0) ps))
           probes
         = Some (PROBE_DIM, 27,
             probes @ map (\<lambda>p. \<lparr>pr_size = req_size, image = image p\<rparr>) ps
               @ [fst (deserializeProbeFromFile junk req_size
                    \<lparr>unread = [], eofbit = False\<rparr>)])"
proof -
  let ?recs = "concat (map (\<lambda>p. serializeProbeToFile junk' [p] 0) ps)"
  have r: "ifstream_read 12 \<lparr>unread = bytes_of_ivec3 PROBE_DIM @ ?recs, eofbit = False\<rparr>
      = (bytes_of_ivec3 PROBE_DIM, \<lparr>unread = ?recs, eofbit = False\<rparr>)"
    by (simp add: ifstream_read_def length_bytes_of_ivec3)
  have d: "ivec3_of_bytes (stored_over (bytes_of_ivec3 PROBE_DIM) (map (dim_junk junk) [0 ..< 12]))
      = PROBE_DIM"
    by (simp add: stored_over_all length_bytes_of_ivec3 ivec3_of_bytes_of_ivec3)
  have c: "(case PROBE_DIM of (x, y, z) \<Rightarrow> x * y * z) = (27 :: 32 word)"
    by (simp add: PROBE_DIM_def)
  show ?thesis
    unfolding loadProbes_def Let_def r fst_conv snd_conv d c
    by (simp add: readProbes_records [OF assms])
qed

subsection \<open>The baking loop\<close>

lemma bakeLoop_result:
  "i \<le> length probes \<Longrightarrow>
   bakeLoop junk req_size gpu positions i (probes, content)
     = (probes @ map (bakeProbe req_size gpu) positions,
        content @ concat (map (\<lambda>k. serializeProbeToFile junk
            [(probes @ map (bakeProbe req_size gpu) positions) ! (i + k)] 0)
          [0 ..< length positions]))"
proof (induction positions arbitrary: i probes content)
  case Nil
  show ?case by simp
next
  case (Cons position rest)
  let ?new = "bakeProbe req_size gpu position"
  let ?all = "probes @ ?new # map (bakeProbe req_size gpu) rest"
  have i: "i < length (probes @ [?new])"
    using Cons.prems by simp
  have first: "serializeProbeToFile junk (probes @ [?new]) i
      = serializeProbeToFile junk [?all ! i] 0"
    using i by (subst serializeProbeToFile_nth) (simp add: nth_append)
  have shift: "map (\<lambda>k. serializeProbeToFile junk [?all ! (i + k)] 0) [0 ..< Suc (length rest)]
    = serializeProbeToFile junk [?all ! i] 0
      # map (\<lambda>k. serializeProbeToFile junk [?all ! Suc (i + k)] 0) [0 ..< length rest]"
    by (simp add: upt_conv_Cons map_Suc_upt [symmetric] del: upt_Suc)
  have "bakeLoop junk req_size gpu (position # rest) i (probes, content)
      = bakeLoop junk req_size gpu rest (Suc i)
          (probes @ [?new], content @ serializeProbeToFile junk (probes @ [?new]) i)"
    by simp
  also have "\<dots> = (?all,
      (content @ serializeProbeToFile junk [?all ! i] 0)
        @ concat (map (\<lambda>k. serializeProbeToFile junk [?all ! Suc (i + k)] 0)
            [0 ..< length rest]))"
    using Cons.IH [of "Suc i" "probes @ [?new]"] Cons.prems by (simp add: first)
  also have "\<dots> = (probes @ map (bakeProbe req_size gpu) (position # rest),
      content @ concat (map (\<lambda>k. serializeProbeToFile junk
          [(probes @ map (bakeProbe req_size gpu) (position # rest)) ! (i + k)] 0)
        [0 ..< length (position # rest)]))"
    by (simp add: shift del: upt_Suc)
  finally show ?case .
qed

lemma map_nth_upt: "map (\<lambda>k. f (xs ! k)) [0 ..< length xs] = map f xs"
  by (rule nth_equalityI) simp_all

lemma bakeLoop_fresh:
  "bakeLoop junk req_size gpu positions 0 ([], content)
     = (map (bakeProbe req_size gpu) positions,
        content @ concat (map (\<lambda>p. serializeProbeToFile junk [p] 0)
          (map (bakeProbe req_size gpu) positions)))"
  using bakeLoop_result [of 0 "[]" junk req_size gpu positions content]
    map_nth_upt [of "\<lambda>p. serializeProbeToFile junk [p] 0"
      "map (bakeProbe req_size gpu) positions"]
  by simp

lemma probe_count_PROBE_DIM: "(case PROBE_DIM of (x, y, z) \<Rightarrow> x * y * z) = (27 :: 32 word)"
  by (simp add: PROBE_DIM_def)

text \<open>A bake without a file and without probes: all 27 positions, and the file it leaves.\<close>

lemma bake_fresh:
  "bake assertions junk req_size gpu [] None
     = Some \<lparr>probes_after = map (bakeProbe req_size gpu) (map grid_position [0 ..< 27]),
         probes_bin = bytes_of_ivec3 PROBE_DIM
           @ concat (map (\<lambda>p. serializeProbeToFile junk [p] 0)
               (map (bakeProbe req_size gpu) (map grid_position [0 ..< 27]))),
         rendered = map grid_position [0 ..< 27]\<rparr>"
proof -
  have pos: "map (\<lambda>i. grid_position (0 + i)) [0 ..< unat (27 - 0 :: 32 word)]
      = map grid_position [0 ..< 27]"
    by simp
  have small: "\<not> 2 ^ 31 \<le> unat (27 - 0 :: 32 word)"
    by simp
  show ?thesis
    unfolding bake_def Let_def option.case probe_count_PROBE_DIM prod.case list.size
      semiring_1_class.of_nat_0 if_not_P [OF small] pos bakeLoop_fresh fst_conv snd_conv
    by simp
qed

lemma bakeProbe_well_formed:
  "length (gpu position) = probe_image_bytes \<Longrightarrow> probe_image_bytes \<le> unat req_size \<Longrightarrow>
   length (image (bakeProbe req_size gpu position)) = probe_image_bytes
   \<and> probe_image_bytes \<le> unat (pr_size (bakeProbe req_size gpu position))"
  by (simp add: bakeProbe_def)

text \<open>
  Loading the file that a complete bake has left: the header comes back as written and
  the 27 images come back byte for byte, and one more probe comes with them.
\<close>

lemma load_after_bake:
  assumes "\<forall>position. length (gpu position) = probe_image_bytes"
    and "probe_image_bytes \<le> unat req_size"
  shows "\<exists>r. bake assertions junk req_size gpu [] None = Some r
     \<and> length (probes_after r) = 27
     \<and> rendered r = map grid_position [0 ..< 27]
     \<and> loadProbes assertions junk' req_size (probes_bin r) []
         = Some (PROBE_DIM, 27,
             probes_after r
               @ [fst (deserializeProbeFromFile junk' req_size
                    \<lparr>unread = [], eofbit = False\<rparr>)])"
proof -
  let ?ps = "map (bakeProbe req_size gpu) (map grid_position [0 ..< 27])"
  have len: "length (gpu position) = probe_image_bytes" for position
    using assms(1) by blast
  have wf: "\<forall>p \<in> set ?ps. length (image p) = probe_image_bytes
      \<and> probe_image_bytes \<le> unat (pr_size p)"
    using assms(2) by (simp add: bakeProbe_def len)
  have same: "map (\<lambda>p. \<lparr>pr_size = req_size, image = image p\<rparr>) ?ps = ?ps"
    by (simp add: bakeProbe_def)
  let ?bogus = "fst (deserializeProbeFromFile junk' req_size \<lparr>unread = [], eofbit = False\<rparr>)"
  let ?content = "bytes_of_ivec3 PROBE_DIM
      @ concat (map (\<lambda>p. serializeProbeToFile junk [p] 0) ?ps)"
  let ?r = "\<lparr>probes_after = ?ps, probes_bin = ?content,
      rendered = map grid_position [0 ..< 27]\<rparr>"
  have "loadProbes assertions junk' req_size ?content []
      = Some (PROBE_DIM, 27,
          [] @ map (\<lambda>p. \<lparr>pr_size = req_size, image = image p\<rparr>) ?ps @ [?bogus])"
    by (rule loadProbes_records [OF wf])
  then have ld: "loadProbes assertions junk' req_size ?content []
      = Some (PROBE_DIM, 27, ?ps @ [?bogus])"
    by (simp only: same append_Nil)
  show ?thesis
  proof (intro exI conjI)
    show "bake assertions junk req_size gpu [] None = Some ?r"
      by (rule bake_fresh)
    show "length (probes_after ?r) = 27"
      by simp
    show "rendered ?r = map grid_position [0 ..< 27]"
      by simp
    show "loadProbes assertions junk' req_size (probes_bin ?r) []
        = Some (PROBE_DIM, 27, probes_after ?r @ [?bogus])"
      using ld by (simp only: BakeResult.select_convs)
  qed
qed

text \<open>
  C6. Serialising the probes with the grid dimensions and deserialising the file gives the
  same dimensions and the same images, and exactly as many probes. The code gives one probe
  more. A bake without a file renders 27 probes (each image here 16384 zero bytes,
  \<open>pr.size\<close> 16384) and writes them; loading that file returns the dimensions (3, 3, 3),
  the 27 probes unchanged, and a 28th probe: \<open>while (!file.eof())\<close> tests the stream
  before the read that fails, not after it.
\<close>

theorem probe_file_loads_one_probe_more:
  "\<exists>r loaded. bake False \<lparr>size_junk = \<lambda>i. 0, dim_junk = \<lambda>i. 0, staging_junk = \<lambda>i. 0\<rparr>
        16384 (\<lambda>position. replicate 16384 0) [] None = Some r
     \<and> length (probes_after r) = 27
     \<and> loadProbes False \<lparr>size_junk = \<lambda>i. 0, dim_junk = \<lambda>i. 0, staging_junk = \<lambda>i. 0\<rparr>
          16384 (probes_bin r) [] = Some (PROBE_DIM, 27, loaded)
     \<and> length loaded = 28
     \<and> take 27 loaded = probes_after r"
proof -
  have a: "\<forall>position. length (replicate 16384 (0 :: byte)) = probe_image_bytes"
    by (simp add: probe_image_bytes_def PROBE_WIDTH_def PROBE_HEIGHT_def)
  have b: "probe_image_bytes \<le> unat (16384 :: 64 word)"
    by (simp add: probe_image_bytes_def PROBE_WIDTH_def PROBE_HEIGHT_def)
  from load_after_bake [OF a b, of False
      "\<lparr>size_junk = \<lambda>i. 0, dim_junk = \<lambda>i. 0, staging_junk = \<lambda>i. 0\<rparr>"
      "\<lparr>size_junk = \<lambda>i. 0, dim_junk = \<lambda>i. 0, staging_junk = \<lambda>i. 0\<rparr>"]
  obtain r where r: "bake False \<lparr>size_junk = \<lambda>i. 0, dim_junk = \<lambda>i. 0, staging_junk = \<lambda>i. 0\<rparr>
        16384 (\<lambda>position. replicate 16384 0) [] None = Some r"
      "length (probes_after r) = 27"
      "loadProbes False \<lparr>size_junk = \<lambda>i. 0, dim_junk = \<lambda>i. 0, staging_junk = \<lambda>i. 0\<rparr>
          16384 (probes_bin r) []
        = Some (PROBE_DIM, 27, probes_after r
            @ [fst (deserializeProbeFromFile
                 \<lparr>size_junk = \<lambda>i. 0, dim_junk = \<lambda>i. 0, staging_junk = \<lambda>i. 0\<rparr> 16384
                 \<lparr>unread = [], eofbit = False\<rparr>)])"
    by blast
  show ?thesis
    using r by (intro exI conjI) (assumption, assumption, assumption, simp_all)
qed

subsection \<open>A bake that finds a file\<close>

lemma bake_existing:
  assumes "loadProbes assertions junk req_size content probes
             = Some (grid_dim, probe_count, loaded)"
    and "unat (probe_count - of_nat (length loaded)) < 2 ^ 31"
  shows "bake assertions junk req_size gpu probes (Some content)
     = Some \<lparr>probes_after = fst (bakeLoop junk req_size gpu
                 (map (\<lambda>i. grid_position (length loaded + i))
                    [0 ..< unat (probe_count - of_nat (length loaded))])
                 0 (loaded, content @ bytes_of_ivec3 PROBE_DIM)),
             probes_bin = snd (bakeLoop junk req_size gpu
                 (map (\<lambda>i. grid_position (length loaded + i))
                    [0 ..< unat (probe_count - of_nat (length loaded))])
                 0 (loaded, content @ bytes_of_ivec3 PROBE_DIM)),
             rendered = map (\<lambda>i. grid_position (length loaded + i))
                 [0 ..< unat (probe_count - of_nat (length loaded))]\<rparr>"
proof -
  have small: "\<not> 2 ^ 31 \<le> unat (probe_count - of_nat (length loaded))"
    using assms(2) by simp
  show ?thesis
    unfolding bake_def assms(1) option.case prod.case Let_def if_not_P [OF small]
    by simp
qed

text \<open>
  The file that a bake leaves when it is stopped after its first probe: the header and
  one record. Loading it returns two probes.
\<close>

lemma load_header_and_one_record:
  "loadProbes False \<lparr>size_junk = \<lambda>i. 0, dim_junk = \<lambda>i. 0, staging_junk = \<lambda>i. 0\<rparr> 16384
     (bytes_of_ivec3 PROBE_DIM
        @ serializeProbeToFile \<lparr>size_junk = \<lambda>i. 0, dim_junk = \<lambda>i. 0, staging_junk = \<lambda>i. 0\<rparr>
            [\<lparr>pr_size = 16384, image = replicate 16384 0\<rparr>] 0) []
   = Some (PROBE_DIM, 27,
       [\<lparr>pr_size = 16384, image = replicate 16384 0\<rparr>,
        fst (deserializeProbeFromFile
          \<lparr>size_junk = \<lambda>i. 0, dim_junk = \<lambda>i. 0, staging_junk = \<lambda>i. 0\<rparr> 16384
          \<lparr>unread = [], eofbit = False\<rparr>)])"
proof -
  have wf: "\<forall>p \<in> set [\<lparr>pr_size = 16384, image = replicate 16384 (0 :: byte)\<rparr>].
      length (image p) = probe_image_bytes \<and> probe_image_bytes \<le> unat (pr_size p)"
    by (simp add: probe_image_bytes_def PROBE_WIDTH_def PROBE_HEIGHT_def)
  show ?thesis
    using loadProbes_records [OF wf, of False
        "\<lparr>size_junk = \<lambda>i. 0, dim_junk = \<lambda>i. 0, staging_junk = \<lambda>i. 0\<rparr>" 16384
        "\<lparr>size_junk = \<lambda>i. 0, dim_junk = \<lambda>i. 0, staging_junk = \<lambda>i. 0\<rparr>" "[]"]
    by simp
qed

text \<open>
  After a complete bake the file holds 27 records and the reading loop puts 28 probes
  into \<open>probes_\<close>, so \<open>left\<close>, the \<open>uint32_t\<close> difference 27 - 28, is 4294967295: a
  second call of \<open>bake\<close> does not come to its end.
\<close>

lemma bake_again_after_complete_bake:
  assumes "\<forall>position. length (gpu position) = probe_image_bytes"
    and "probe_image_bytes \<le> unat req_size"
    and "bake assertions junk req_size gpu [] None = Some r"
  shows "bake assertions junk' req_size gpu' [] (Some (probes_bin r)) = None"
proof -
  from load_after_bake [OF assms(1,2), of assertions junk junk'] assms(3)
  have len: "length (probes_after r) = 27"
    and ld: "loadProbes assertions junk' req_size (probes_bin r) []
      = Some (PROBE_DIM, 27, probes_after r
          @ [fst (deserializeProbeFromFile junk' req_size \<lparr>unread = [], eofbit = False\<rparr>)])"
    by auto
  have wrap: "unat (- 1 :: 32 word) = 4294967295"
    by (simp add: unsigned_minus_1_eq_mask mask_eq_exp_minus_1)
  show ?thesis
    unfolding bake_def ld option.case prod.case Let_def
    by (simp add: len wrap)
qed

text \<open>
  A bake that goes on from loaded probes writes with \<open>serializeProbeToFile(file, i)\<close> the
  record of \<open>probes_[i]\<close>, counted from the first loaded probe, not of the probe it has
  just baked: the records it appends are those of the first probes of \<open>probes_\<close>, as many
  as it has rendered.
\<close>

lemma le_value_zeros: "le_value (map (\<lambda>i. 0) xs) = 0"
  by (induction xs) simp_all

lemma map_nth_take:
  "n \<le> length xs \<Longrightarrow> map (\<lambda>k. f (xs ! k)) [0 ..< n] = map f (take n xs)"
  by (rule nth_equalityI) simp_all

lemma resumed_bake_writes_first_probes:
  "bakeLoop junk req_size gpu positions 0 (loaded, content)
     = (loaded @ map (bakeProbe req_size gpu) positions,
        content @ concat (map (\<lambda>p. serializeProbeToFile junk [p] 0)
          (take (length positions) (loaded @ map (bakeProbe req_size gpu) positions))))"
  using bakeLoop_result [of 0 loaded junk req_size gpu positions content]
    map_nth_take [of "length positions" "loaded @ map (bakeProbe req_size gpu) positions"
      "\<lambda>p. serializeProbeToFile junk [p] 0"]
  by simp

lemma positions_after_two: "map (\<lambda>i. grid_position (2 + i)) [0 ..< 25] = map grid_position [2 ..< 27]"
proof -
  have "map (\<lambda>i. i + 2) [0 ..< 25] = [2 ..< 25 + 2]"
    by (rule map_add_upt)
  then have "map grid_position (map (\<lambda>i. i + 2) [0 ..< 25]) = map grid_position [2 ..< 27]"
    by (simp del: upt_rec_numeral)
  then show ?thesis
    by (simp add: comp_def add.commute del: upt_rec_numeral)
qed

text \<open>
  C7. A call of \<open>bake\<close> that finds the file is to load the probes of the file and to
  render only those that the file does not have yet, appending the record of each. The
  code does neither, for two files that \<open>bake\<close> itself has written (every image has 16384
  bytes, \<open>pr.size\<close> is 16384, indeterminate memory reads as zero).

  The first file is the one a complete bake leaves, the header and 27 records. The
  reading loop returns 28 probes, \<open>left\<close> is 27 - 28 in \<open>uint32_t\<close>, and the call does
  not come to its end: the probes are not there to use.

  The second file is the one a bake leaves that was stopped after its first probe, the
  header and the record of the probe at grid position 0 (its image all zero). The device
  now renders every image as all one. The reading loop returns two probes, the one of the
  file and one that no record stands for; so the bake goes on at grid position 2, and the
  probe at grid position 1 is never rendered. It writes the header a second time, after
  the record that is in the file, and the 25 records it then appends are those of the two
  loaded probes and of the first 23 probes it has baked.
\<close>

theorem bake_with_existing_file_neither_loads_nor_resumes:
  "(\<exists>r. bake False \<lparr>size_junk = \<lambda>i. 0, dim_junk = \<lambda>i. 0, staging_junk = \<lambda>i. 0\<rparr> 16384
         (\<lambda>position. replicate 16384 0) [] None = Some r
      \<and> bake False \<lparr>size_junk = \<lambda>i. 0, dim_junk = \<lambda>i. 0, staging_junk = \<lambda>i. 0\<rparr> 16384
          (\<lambda>position. replicate 16384 0) [] (Some (probes_bin r)) = None)
   \<and> (\<exists>r. bake False \<lparr>size_junk = \<lambda>i. 0, dim_junk = \<lambda>i. 0, staging_junk = \<lambda>i. 0\<rparr> 16384
         (\<lambda>position. replicate 16384 1) []
         (Some (bytes_of_ivec3 PROBE_DIM
            @ serializeProbeToFile
                \<lparr>size_junk = \<lambda>i. 0, dim_junk = \<lambda>i. 0, staging_junk = \<lambda>i. 0\<rparr>
                [\<lparr>pr_size = 16384, image = replicate 16384 0\<rparr>] 0)) = Some r
      \<and> rendered r = map grid_position [2 ..< 27]
      \<and> probes_after r
          = [\<lparr>pr_size = 16384, image = replicate 16384 0\<rparr>, \<lparr>pr_size = 16384, image = []\<rparr>]
            @ replicate 25 \<lparr>pr_size = 16384, image = replicate 16384 1\<rparr>
      \<and> probes_bin r
          = (bytes_of_ivec3 PROBE_DIM
              @ serializeProbeToFile
                  \<lparr>size_junk = \<lambda>i. 0, dim_junk = \<lambda>i. 0, staging_junk = \<lambda>i. 0\<rparr>
                  [\<lparr>pr_size = 16384, image = replicate 16384 0\<rparr>] 0)
            @ bytes_of_ivec3 PROBE_DIM
            @ concat (map (serializeProbeToFile
                  \<lparr>size_junk = \<lambda>i. 0, dim_junk = \<lambda>i. 0, staging_junk = \<lambda>i. 0\<rparr>
                  [\<lparr>pr_size = 16384, image = replicate 16384 0\<rparr>,
                   \<lparr>pr_size = 16384, image = []\<rparr>]) [0, 1])
            @ concat (replicate 23 (serializeProbeToFile
                  \<lparr>size_junk = \<lambda>i. 0, dim_junk = \<lambda>i. 0, staging_junk = \<lambda>i. 0\<rparr>
                  [\<lparr>pr_size = 16384, image = replicate 16384 1\<rparr>] 0)))"
proof (rule conjI)
  let ?junk = "\<lparr>size_junk = \<lambda>i. 0, dim_junk = \<lambda>i. 0, staging_junk = \<lambda>i. 0\<rparr>"
  let ?zero = "\<lambda>position :: nat \<times> nat \<times> nat. replicate 16384 (0 :: byte)"
  have a: "\<forall>position. length (?zero position) = probe_image_bytes"
    by (simp add: probe_image_bytes_def PROBE_WIDTH_def PROBE_HEIGHT_def)
  have b: "probe_image_bytes \<le> unat (16384 :: 64 word)"
    by (simp add: probe_image_bytes_def PROBE_WIDTH_def PROBE_HEIGHT_def)
  obtain r where r: "bake False ?junk 16384 ?zero [] None = Some r"
    using bake_fresh [of False ?junk 16384 ?zero] by blast
  have "bake False ?junk 16384 ?zero [] (Some (probes_bin r)) = None"
    by (rule bake_again_after_complete_bake [OF a b r])
  with r show "\<exists>r. bake False ?junk 16384 ?zero [] None = Some r
      \<and> bake False ?junk 16384 ?zero [] (Some (probes_bin r)) = None"
    by blast
next
  let ?junk = "\<lparr>size_junk = \<lambda>i. 0, dim_junk = \<lambda>i. 0, staging_junk = \<lambda>i. 0\<rparr>"
  let ?one = "\<lambda>position :: nat \<times> nat \<times> nat. replicate 16384 (1 :: byte)"
  let ?p0 = "\<lparr>pr_size = 16384, image = replicate 16384 (0 :: byte)\<rparr>"
  let ?p1 = "\<lparr>pr_size = 16384, image = replicate 16384 (1 :: byte)\<rparr>"
  let ?extra = "\<lparr>pr_size = 16384, image = ([] :: byte list)\<rparr>"
  let ?content = "bytes_of_ivec3 PROBE_DIM @ serializeProbeToFile ?junk [?p0] 0"
  let ?positions = "map (\<lambda>i. grid_position (2 + i)) [0 ..< 25]"
  have extra: "fst (deserializeProbeFromFile ?junk 16384 \<lparr>unread = [], eofbit = False\<rparr>)
      = ?extra"
    by (simp add: deserializeProbeFromFile_at_end makeStagingBuffer_def u64_of_bytes_def
        le_value_zeros)
  have ld: "loadProbes False ?junk 16384 ?content [] = Some (PROBE_DIM, 27, [?p0, ?extra])"
    using load_header_and_one_record by (simp only: extra)
  have left: "unat (27 - of_nat (length [?p0, ?extra]) :: 32 word) = 25"
    by simp
  have "bakeProbe 16384 ?one position = ?p1" for position
    by (simp add: bakeProbe_def probe_image_bytes_def PROBE_WIDTH_def PROBE_HEIGHT_def)
  then have const: "bakeProbe 16384 ?one = (\<lambda>position. ?p1)"
    by (intro ext)
  have baked: "map (bakeProbe 16384 ?one) ?positions = replicate 25 ?p1"
    unfolding const by (simp add: map_replicate_const comp_def del: upt_rec_numeral)
  have loop: "bakeLoop ?junk 16384 ?one ?positions 0
        ([?p0, ?extra], ?content @ bytes_of_ivec3 PROBE_DIM)
      = ([?p0, ?extra] @ replicate 25 ?p1,
         (?content @ bytes_of_ivec3 PROBE_DIM)
           @ concat (map (\<lambda>p. serializeProbeToFile ?junk [p] 0)
               (take 25 ([?p0, ?extra] @ replicate 25 ?p1))))"
    using resumed_bake_writes_first_probes [of ?junk 16384 ?one ?positions "[?p0, ?extra]"
        "?content @ bytes_of_ivec3 PROBE_DIM"]
    unfolding baked by (simp del: upt_rec_numeral)
  have written: "take 25 ([?p0, ?extra] @ replicate 25 ?p1) = [?p0, ?extra] @ replicate 23 ?p1"
    by simp
  have recs: "concat (map (\<lambda>p. serializeProbeToFile ?junk [p] 0)
        ([?p0, ?extra] @ replicate 23 ?p1))
      = concat (map (serializeProbeToFile ?junk [?p0, ?extra]) [0, 1])
        @ concat (replicate 23 (serializeProbeToFile ?junk [?p1] 0))"
    by (simp add: serializeProbeToFile_nth [of ?junk "[?p0, ?extra]"] map_replicate)
  have small: "unat (27 - of_nat (length [?p0, ?extra]) :: 32 word) < 2 ^ 31"
    by simp
  have pos25: "map (\<lambda>i. grid_position (length [?p0, ?extra] + i))
        [0 ..< unat (27 - of_nat (length [?p0, ?extra]) :: 32 word)] = ?positions"
    by (simp del: upt_rec_numeral)
  have "bake False ?junk 16384 ?one [] (Some ?content)
      = Some \<lparr>probes_after = [?p0, ?extra] @ replicate 25 ?p1,
          probes_bin = ?content @ bytes_of_ivec3 PROBE_DIM
            @ concat (map (serializeProbeToFile ?junk [?p0, ?extra]) [0, 1])
            @ concat (replicate 23 (serializeProbeToFile ?junk [?p1] 0)),
          rendered = map grid_position [2 ..< 27]\<rparr>"
    unfolding bake_existing [OF ld small] pos25 loop fst_conv snd_conv
    by (simp only: written recs positions_after_two append_assoc)
  then show "\<exists>r. bake False ?junk 16384 ?one [] (Some ?content) = Some r
      \<and> rendered r = map grid_position [2 ..< 27]
      \<and> probes_after r = [?p0, ?extra] @ replicate 25 ?p1
      \<and> probes_bin r = ?content @ bytes_of_ivec3 PROBE_DIM
          @ concat (map (serializeProbeToFile ?junk [?p0, ?extra]) [0, 1])
          @ concat (replicate 23 (serializeProbeToFile ?junk [?p1] 0))"
    by simp
qed

end
